theory Spec2Isabelle
  imports Complex_Main "HOL-Library.Word"
begin

section \<open>Strings of the host language\<close>

text \<open>
  A JavaScript string is a sequence of UTF-16 code units. String literals of the source
  are ASCII and are written through \<open>js\<close>.
\<close>

type_synonym char16 = "16 word"
type_synonym jsstring = "char16 list"

definition js :: "string \<Rightarrow> jsstring" where
  "js s = map of_char s"

text \<open>
  The characters that \<^verbatim>\<open>String.prototype.trim\<close> removes and that the regular
  expression class \<^verbatim>\<open>\s\<close> matches: the white space and line terminator code units.
\<close>

definition is_space :: "char16 \<Rightarrow> bool" where
  "is_space c \<longleftrightarrow>
     c = 0x09 \<or> c = 0x0A \<or> c = 0x0B \<or> c = 0x0C \<or> c = 0x0D \<or> c = 0x20 \<or> c = 0xA0 \<or>
     c = 0x1680 \<or> (0x2000 \<le> c \<and> c \<le> 0x200A) \<or> c = 0x2028 \<or> c = 0x2029 \<or>
     c = 0x202F \<or> c = 0x205F \<or> c = 0x3000 \<or> c = 0xFEFF"

definition trim :: "jsstring \<Rightarrow> jsstring" where
  "trim s = rev (dropWhile is_space (rev (dropWhile is_space s)))"

text \<open>
  A value that may be \<^verbatim>\<open>null\<close> or \<^verbatim>\<open>undefined\<close> is an option. For strings,
  \<^verbatim>\<open>a || b\<close> yields \<open>a\<close> when it is present and non-empty, and \<open>b\<close> otherwise.
\<close>

definition truthy_str :: "jsstring option \<Rightarrow> bool" where
  "truthy_str x = (case x of None \<Rightarrow> False | Some s \<Rightarrow> s \<noteq> [])"

definition or_else :: "jsstring option \<Rightarrow> jsstring option \<Rightarrow> jsstring option" where
  "or_else a b = (if truthy_str a then a else b)"

definition or_default :: "jsstring option \<Rightarrow> jsstring \<Rightarrow> jsstring" where
  "or_default a d = (case a of None \<Rightarrow> d | Some s \<Rightarrow> if s \<noteq> [] then s else d)"

fun strip_prefix :: "jsstring \<Rightarrow> jsstring \<Rightarrow> jsstring option" where
  "strip_prefix [] s = Some s"
| "strip_prefix (p # ps) [] = None"
| "strip_prefix (p # ps) (c # cs) = (if p = c then strip_prefix ps cs else None)"

section \<open>Rate limiter\<close>

text \<open>
  \<^verbatim>\<open>rateLimitMap\<close> is a process-wide map from the client address to an entry
  \<^verbatim>\<open>{ count, resetAt }\<close>. \<^verbatim>\<open>checkRateLimit\<close> reads the clock once
  (\<^verbatim>\<open>Date.now()\<close>, the argument \<open>now\<close>, in milliseconds) and returns its verdict
  together with the map after the call.
\<close>

record rate_entry =
  count :: int
  resetAt :: int

type_synonym rate_map = "jsstring \<rightharpoonup> rate_entry"

definition RATE_LIMIT :: int where
  "RATE_LIMIT = 10"

definition RATE_WINDOW :: int where
  "RATE_WINDOW = 60 * 1000"

definition checkRateLimit :: "jsstring \<Rightarrow> int \<Rightarrow> rate_map \<Rightarrow> bool \<times> rate_map" where
  "checkRateLimit ip now m =
     (case m ip of
        None \<Rightarrow> (True, m(ip \<mapsto> \<lparr>count = 1, resetAt = now + RATE_WINDOW\<rparr>))
      | Some entry \<Rightarrow>
          if now > resetAt entry
          then (True, m(ip \<mapsto> \<lparr>count = 1, resetAt = now + RATE_WINDOW\<rparr>))
          else if count entry \<ge> RATE_LIMIT then (False, m)
          else (True, m(ip \<mapsto> entry\<lparr>count := count entry + 1\<rparr>)))"

text \<open>
  Successive calls of the limiter, one per incoming request, each with the address it was
  derived from and the clock reading of that call. The result lists the verdicts in order.
\<close>

fun checkRateLimit_seq :: "rate_map \<Rightarrow> (jsstring \<times> int) list \<Rightarrow> bool list \<times> rate_map" where
  "checkRateLimit_seq m [] = ([], m)"
| "checkRateLimit_seq m ((ip, now) # rs) =
     (let (a, m') = checkRateLimit ip now m;
          (as, m'') = checkRateLimit_seq m' rs
      in (a # as, m''))"

text \<open>The verdicts that the requests of one address received, in order.\<close>

definition verdicts_of :: "jsstring \<Rightarrow> (jsstring \<times> int) list \<Rightarrow> bool list \<Rightarrow> bool list" where
  "verdicts_of ip rs vs = map snd (filter (\<lambda>(r, v). fst r = ip) (zip rs vs))"

definition requests_of :: "jsstring \<Rightarrow> (jsstring \<times> int) list \<Rightarrow> nat" where
  "requests_of ip rs = length (filter (\<lambda>r. fst r = ip) rs)"

section \<open>Classification client\<close>

text \<open>
  Values as \<^verbatim>\<open>JSON.parse\<close> produces them. A number is the rational that the double
  denotes; an object lists its own properties, each key once. A value that may also be
  \<^verbatim>\<open>undefined\<close> or \<^verbatim>\<open>null\<close> on the JavaScript side is a \<open>json option\<close>.
\<close>

datatype json =
    JNull
  | JBool bool
  | JNum rat
  | JStr jsstring
  | JArr "json list"
  | JObj "(jsstring \<times> json) list"

datatype js_error = TypeError | SyntaxError | BackendError

text \<open>
  Reading one of the six classification properties \<open>v.k\<close>: \<^verbatim>\<open>undefined\<close> on anything
  but an object that has the key. (On \<^verbatim>\<open>null\<close> the read throws; \<open>valid_structure\<close> below
  takes that branch before any read.)
\<close>

definition get_prop :: "json \<Rightarrow> jsstring \<Rightarrow> json option" where
  "get_prop v k = (case v of JObj kvs \<Rightarrow> map_of kvs k | _ \<Rightarrow> None)"

definition truthy :: "json option \<Rightarrow> bool" where
  "truthy x =
     (case x of
        None \<Rightarrow> False
      | Some JNull \<Rightarrow> False
      | Some (JBool b) \<Rightarrow> b
      | Some (JNum n) \<Rightarrow> n \<noteq> 0
      | Some (JStr s) \<Rightarrow> s \<noteq> []
      | Some (JArr _) \<Rightarrow> True
      | Some (JObj _) \<Rightarrow> True)"

definition isArray :: "json option \<Rightarrow> bool" where
  "isArray x = (case x of Some (JArr _) \<Rightarrow> True | _ \<Rightarrow> False)"

definition includes_js :: "jsstring list \<Rightarrow> json option \<Rightarrow> bool" where
  "includes_js xs x = (case x of Some (JStr s) \<Rightarrow> s \<in> set xs | _ \<Rightarrow> False)"

definition categories :: "jsstring list" where
  "categories = [js ''bug'', js ''feature'', js ''question'', js ''billing'', js ''praise'', js ''other'']"

definition priorities :: "jsstring list" where
  "priorities = [js ''low'', js ''medium'', js ''high'']"

text \<open>The guard under \<^verbatim>\<open>// Validate structure\<close>; \<open>Inr True\<close> when the reply passes.\<close>

definition valid_structure :: "json \<Rightarrow> js_error + bool" where
  "valid_structure aiData =
     (case aiData of
        JNull \<Rightarrow> Inl TypeError
      | _ \<Rightarrow> Inr (\<not> (\<not> truthy (get_prop aiData (js ''title'')) \<or>
                     \<not> truthy (get_prop aiData (js ''short_summary'')) \<or>
                     \<not> isArray (get_prop aiData (js ''key_details'')) \<or>
                     \<not> includes_js categories (get_prop aiData (js ''suggested_category'')) \<or>
                     \<not> truthy (get_prop aiData (js ''suggested_feature_area'')) \<or>
                     \<not> includes_js priorities (get_prop aiData (js ''suggested_priority'')))))"

subsection \<open>The request sent to the model\<close>

definition join_lines :: "jsstring list \<Rightarrow> jsstring" where
  "join_lines ls = concat (map (\<lambda>l. 0x0A # l) ls)"

definition prompt_head :: "jsstring list" where
  \<open>prompt_head =
     [js ''Analyze this user feedback and classify it. The user is reporting feedback, a bug, feature request, or question.'',
      js '''',
      js ''User message: "'']\<close>

definition prompt_tail :: "jsstring list" where
  \<open>prompt_tail =
     [js ''"'',
      js '''',
      js ''Extract:'',
      js ''1. A concise title (5-8 words)'',
      js ''2. A short summary (1-2 sentences)'',
      js ''3. Key details as a list'',
      js ''4. Category: bug, feature, question, billing, praise, or other'',
      js ''5. Feature area: which part of the product (e.g. "export", "upload", "dashboard", "prompts", "billing", "login")'',
      js ''6. Priority: low, medium, or high (high = blocking/urgent, medium = important, low = nice to have)'',
      js ''7. Steps to reproduce (if bug)'',
      js ''8. Expected behavior (if bug)'',
      js ''9. Confidence score (0.0-1.0)'',
      js ''10. Clarifying questions (only if really needed, max 2)'',
      js '''',
      js ''Return ONLY valid JSON (no markdown, no explanation):'',
      js ''{'',
      js ''  "title": "...",'',
      js ''  "short_summary": "...",'',
      js ''  "key_details": ["...", "..."],'',
      js ''  "suggested_category": "bug"|"feature"|"question"|"billing"|"praise"|"other",'',
      js ''  "suggested_feature_area": "...",'',
      js ''  "suggested_priority": "low"|"medium"|"high",'',
      js ''  "steps": ["...", "..."],'',
      js ''  "expected": "..." or null,'',
      js ''  "confidence": 0.0-1.0,'',
      js ''  "clarifying_questions": ["...", "..."]'',
      js ''}'']\<close>

definition prompt :: "jsstring \<Rightarrow> jsstring" where
  "prompt messageRaw = tl (join_lines prompt_head) @ messageRaw @ tl (join_lines prompt_tail)"

datatype part = TextPart jsstring | InlineData (mimeType: jsstring) (data: jsstring)

text \<open>
  \<^verbatim>\<open>s.match(/data:([^;]+)/)\<close>: the first position where \<^verbatim>\<open>data:\<close> is followed by at
  least one code unit other than a semicolon; the group is the longest such run.
\<close>

fun mime_match :: "jsstring \<Rightarrow> jsstring option" where
  "mime_match [] = None"
| "mime_match (c # cs) =
     (case strip_prefix (js ''data:'') (c # cs) of
        Some r \<Rightarrow>
          if takeWhile (\<lambda>x. x \<noteq> 0x3B) r \<noteq> [] then Some (takeWhile (\<lambda>x. x \<noteq> 0x3B) r)
          else mime_match cs
      | None \<Rightarrow> mime_match cs)"

text \<open>\<^verbatim>\<open>s.split(',')[1]\<close> for a string that contains a comma.\<close>

definition second_segment :: "jsstring \<Rightarrow> jsstring" where
  "second_segment s = takeWhile (\<lambda>x. x \<noteq> 0x2C) (tl (dropWhile (\<lambda>x. x \<noteq> 0x2C) s))"

definition build_parts :: "jsstring \<Rightarrow> jsstring option \<Rightarrow> part list" where
  "build_parts messageRaw screenshotBase64 =
     [TextPart (prompt messageRaw)] @
     (case screenshotBase64 of
        None \<Rightarrow> []
      | Some s \<Rightarrow>
          if s = [] then []
          else
            let base64Data = (if 0x2C \<in> set s then second_segment s else s);
                mimeType =
                  (case strip_prefix (js ''data:'') s of
                     Some _ \<Rightarrow> (case mime_match s of Some g \<Rightarrow> g | None \<Rightarrow> js ''image/png'')
                   | None \<Rightarrow> js ''image/png'')
            in [InlineData mimeType base64Data])"

subsection \<open>Extracting the JSON text from the reply\<close>

text \<open>
  The pattern is \<^verbatim>\<open>/```(?:json)?\s*(\{[\s\S]*\})\s*```/\<close>, used with \<^verbatim>\<open>match\<close>: the
  leftmost position where it matches, and there the first match in backtracking order.
  \<open>closes\<close> is the tail \<^verbatim>\<open>\s*```\<close>. \<open>greedy_body\<close> is \<^verbatim>\<open>[\s\S]*\}\<close> followed by that
  tail: the star first tries to take the next code unit, and only when nothing matches
  further to the right does the brace at hand close the group. A white space run before
  the opening brace or the closing fence must be taken whole, since neither a brace nor a
  backtick is white space.
\<close>

definition closes :: "jsstring \<Rightarrow> bool" where
  "closes s = (strip_prefix (js ''```'') (dropWhile is_space s) \<noteq> None)"

fun greedy_body :: "jsstring \<Rightarrow> jsstring option" where
  "greedy_body [] = None"
| "greedy_body (c # cs) =
     (case greedy_body cs of
        Some g \<Rightarrow> Some (c # g)
      | None \<Rightarrow> if c = 0x7D \<and> closes cs then Some [c] else None)"

definition fence_body :: "jsstring \<Rightarrow> jsstring option" where
  "fence_body r =
     (case dropWhile is_space r of
        [] \<Rightarrow> None
      | c # cs \<Rightarrow> if c = 0x7B then map_option (Cons c) (greedy_body cs) else None)"

definition fence_at :: "jsstring \<Rightarrow> jsstring option" where
  "fence_at s =
     (case strip_prefix (js ''```'') s of
        None \<Rightarrow> None
      | Some r \<Rightarrow>
          (case (case strip_prefix (js ''json'') r of Some r' \<Rightarrow> fence_body r' | None \<Rightarrow> None) of
             Some g \<Rightarrow> Some g
           | None \<Rightarrow> fence_body r))"

fun fence_match :: "jsstring \<Rightarrow> jsstring option" where
  "fence_match [] = None"
| "fence_match (c # cs) =
     (case fence_at (c # cs) of Some g \<Rightarrow> Some g | None \<Rightarrow> fence_match cs)"

definition extract_json :: "jsstring \<Rightarrow> jsstring" where
  "extract_json text =
     (let jsonText = trim text
      in case fence_match jsonText of Some g \<Rightarrow> g | None \<Rightarrow> jsonText)"

subsection \<open>analyzeFeedback\<close>

text \<open>
  The generative model and \<^verbatim>\<open>JSON.parse\<close> belong to the platform and are parameters:
  \<open>generateContent\<close> gives the reply text of \<^verbatim>\<open>result.response.text()\<close> or fails,
  \<open>JSON_parse\<close> gives the parsed value or throws.
\<close>

record ai_backend =
  generateContent :: "part list \<Rightarrow> js_error + jsstring"
  JSON_parse :: "jsstring \<Rightarrow> js_error + json"

text \<open>The extraction of the JSON text followed by \<^verbatim>\<open>JSON.parse(jsonText)\<close>.\<close>

definition extract_and_parse :: "ai_backend \<Rightarrow> jsstring \<Rightarrow> js_error + json" where
  "extract_and_parse b text = JSON_parse b (extract_json text)"

text \<open>The body of the \<^verbatim>\<open>try\<close> block; \<open>Inl\<close> is an exception thrown inside it.\<close>

definition analyze_try :: "ai_backend \<Rightarrow> jsstring \<Rightarrow> jsstring option \<Rightarrow> js_error + json option" where
  "analyze_try b messageRaw screenshotBase64 =
     (case generateContent b (build_parts messageRaw screenshotBase64) of
        Inl e \<Rightarrow> Inl e
      | Inr text \<Rightarrow>
          if text = [] then Inr None
          else
            (case extract_and_parse b text of
               Inl e \<Rightarrow> Inl e
             | Inr aiData \<Rightarrow>
                 (case valid_structure aiData of
                    Inl e \<Rightarrow> Inl e
                  | Inr ok \<Rightarrow> if \<not> ok then Inr None else Inr (Some aiData))))"

text \<open>
  The function itself: \<open>Inl\<close> would be a rejected promise, \<open>Inr None\<close> is \<^verbatim>\<open>null\<close>. The
  first component lists the requests made to the model.
\<close>

definition analyzeFeedback ::
  "ai_backend \<Rightarrow> jsstring \<Rightarrow> jsstring option \<Rightarrow> jsstring \<Rightarrow> part list list \<times> (js_error + json option)" where
  "analyzeFeedback b messageRaw screenshotBase64 geminiApiKey =
     (if geminiApiKey = [] then ([], Inr None)
      else
        ([build_parts messageRaw screenshotBase64],
         (case analyze_try b messageRaw screenshotBase64 of
            Inl error \<Rightarrow> Inr None
          | Inr r \<Rightarrow> Inr r)))"

section \<open>The feedback route\<close>

text \<open>
  The request as the handler reads it: the headers by their lower-case names, and the
  multipart form. The handler casts the entries \<^verbatim>\<open>website\<close>, \<^verbatim>\<open>message\<close> and
  \<^verbatim>\<open>project\<close> to strings and \<^verbatim>\<open>screenshot\<close> to a file, and the model takes them at
  these types; an entry that is absent is \<open>None\<close>. A body that is not a form makes
  \<^verbatim>\<open>request.formData()\<close> throw: \<open>formData = None\<close>.
\<close>

type_synonym bytes = "8 word list"

record js_file =
  ftype :: jsstring
  fbytes :: bytes

record form_data =
  website :: "jsstring option"
  message :: "jsstring option"
  screenshot :: "js_file option"
  project :: "jsstring option"

record request =
  headers :: "jsstring \<rightharpoonup> jsstring"
  formData :: "form_data option"

record response =
  status :: nat
  body :: json

text \<open>
  What the handler leaves behind: the limiter's map, the uploads handed to the storage
  bucket, the rows of the \<^verbatim>\<open>feedback\<close> table with their ids, the calls of
  \<^verbatim>\<open>sendNotificationEmail\<close>, the calls of \<^verbatim>\<open>analyzeFeedback\<close> with their arguments,
  and the requests made to the model.
\<close>

record upload =
  path :: jsstring
  content :: bytes
  contentType :: jsstring
  cacheControl :: jsstring

record feedback_row =
  page_url :: jsstring
  user_agent :: "jsstring option"
  message_raw :: jsstring
  screenshot_url :: "jsstring option"
  ai_data :: "json option"
  project_id :: "jsstring option"
  row_status :: jsstring

record notification =
  note_id :: jsstring
  note_message_raw :: jsstring
  note_page_url :: jsstring
  note_ai_data :: "json option"

record analyze_call =
  call_messageRaw :: jsstring
  call_screenshotBase64 :: "jsstring option"
  call_geminiApiKey :: jsstring

record world =
  rateLimitMap :: rate_map
  bucket_uploads :: "upload list"
  feedback_table :: "(jsstring \<times> feedback_row) list"
  notifications :: "notification list"
  analyze_calls :: "analyze_call list"
  model_requests :: "part list list"

text \<open>
  What the handler reads from outside during one request: the clock, the environment
  variable, the two pieces of the generated file name (the clock reading in decimal and
  the random suffix), the outcome of the upload and of the insertion as the storage client
  reports them, the public URL of a path, the base64 encoder, and the model.
\<close>

datatype upload_result = Uploaded | UploadFailed

datatype insert_result = Inserted jsstring | InsertFailed

record env =
  clock :: int
  GEMINI_API_KEY :: "jsstring option"
  name_stamp :: jsstring
  name_random :: jsstring
  upload_outcome :: upload_result
  getPublicUrl :: "jsstring \<Rightarrow> jsstring"
  toBase64 :: "bytes \<Rightarrow> jsstring"
  model :: ai_backend
  insert_outcome :: insert_result

definition json_response :: "nat \<Rightarrow> (jsstring \<times> json) list \<Rightarrow> response" where
  "json_response code kvs = \<lparr>status = code, body = JObj kvs\<rparr>"

definition json_of :: "json option \<Rightarrow> json" where
  "json_of x = (case x of None \<Rightarrow> JNull | Some v \<Rightarrow> v)"

text \<open>
  \<^verbatim>\<open>headers.get('x-forwarded-for')?.split(',')[0] || headers.get('x-real-ip') || 'unknown'\<close>
\<close>

definition client_ip :: "request \<Rightarrow> jsstring" where
  "client_ip req =
     or_default
       (or_else (map_option (takeWhile (\<lambda>c. c \<noteq> 0x2C)) (headers req (js ''x-forwarded-for'')))
                (headers req (js ''x-real-ip'')))
       (js ''unknown'')"

definition honeypot_filled :: "form_data \<Rightarrow> bool" where
  "honeypot_filled fd =
     (case website fd of None \<Rightarrow> False | Some honeypot \<Rightarrow> honeypot \<noteq> [] \<and> length (trim honeypot) > 0)"

definition message_missing :: "form_data \<Rightarrow> bool" where
  "message_missing fd = (case message fd of None \<Rightarrow> True | Some messageRaw \<Rightarrow> trim messageRaw = [])"

text \<open>
  The screenshot step: the public URL when the upload succeeded, the data URL kept for
  the model, and the uploads handed to the bucket.
\<close>

definition screenshot_step ::
  "env \<Rightarrow> js_file option \<Rightarrow> jsstring option \<times> jsstring option \<times> upload list" where
  "screenshot_step e shot =
     (case shot of
        None \<Rightarrow> (None, None, [])
      | Some f \<Rightarrow>
          if length (fbytes f) > 0 then
            let buffer = fbytes f;
                filename = name_stamp e @ js ''-'' @ name_random e @ js ''.png'';
                uploads = [\<lparr>path = filename, content = buffer,
                            contentType = js ''image/png'', cacheControl = js ''3600''\<rparr>];
                screenshotUrl =
                  (case upload_outcome e of
                     Uploaded \<Rightarrow> Some (getPublicUrl e filename)
                   | UploadFailed \<Rightarrow> None);
                screenshotBase64 = js ''data:image/png;base64,'' @ toBase64 e buffer
            in (screenshotUrl, Some screenshotBase64, uploads)
          else (None, None, []))"

text \<open>
  The classification step: the value of \<^verbatim>\<open>aiData\<close> (\<open>Inl\<close> is an exception reaching the
  handler), the requests made to the model, and the call of \<^verbatim>\<open>analyzeFeedback\<close> with the
  arguments it was given.
\<close>

definition classify_step ::
  "env \<Rightarrow> jsstring \<Rightarrow> jsstring option \<Rightarrow>
     (js_error + json option) \<times> part list list \<times> analyze_call list" where
  "classify_step e messageRaw screenshotBase64 =
     (if truthy_str (GEMINI_API_KEY e) then
        let geminiKey = or_default (GEMINI_API_KEY e) [];
            (reqs, r) = analyzeFeedback (model e) messageRaw (or_else screenshotBase64 None) geminiKey
        in (r, reqs,
            [\<lparr>call_messageRaw = messageRaw,
              call_screenshotBase64 = or_else screenshotBase64 None,
              call_geminiApiKey = geminiKey\<rparr>])
      else (Inr None, [], []))"

definition internal_error :: response where
  "internal_error = json_response 500 [(js ''error'', JStr (js ''Internal server error''))]"

definition pageUrl :: "request \<Rightarrow> jsstring" where
  "pageUrl req =
     or_default (or_else (headers req (js ''x-page-url'')) (headers req (js ''referer''))) (js ''unknown'')"

definition userAgent :: "request \<Rightarrow> jsstring option" where
  "userAgent req = or_else (headers req (js ''user-agent'')) None"

text \<open>The part of the handler after the form has been read.\<close>

definition accept_form :: "env \<Rightarrow> request \<Rightarrow> form_data \<Rightarrow> world \<Rightarrow> response \<times> world" where
  "accept_form e req fd w =
     (if honeypot_filled fd then
        (json_response 200 [(js ''id'', JStr (js ''fake-id'')), (js ''message'', JStr (js ''Feedback sent''))], w)
      else if message_missing fd then
        (json_response 400 [(js ''error'', JStr (js ''Message is required''))], w)
      else
        let messageRaw = or_default (message fd) [];
            projectId = or_else (project fd) None;
            (screenshotUrl, screenshotBase64, uploads) = screenshot_step e (screenshot fd);
            w1 = w\<lparr>bucket_uploads := bucket_uploads w @ uploads\<rparr>;
            (classified, reqs, calls) = classify_step e messageRaw screenshotBase64;
            w2 = w1\<lparr>analyze_calls := analyze_calls w1 @ calls,
                    model_requests := model_requests w1 @ reqs\<rparr>
        in case classified of
             Inl error \<Rightarrow> (internal_error, w2)
           | Inr aiData \<Rightarrow>
               (case insert_outcome e of
                  InsertFailed \<Rightarrow>
                    (json_response 500 [(js ''error'', JStr (js ''Failed to save feedback''))], w2)
                | Inserted new_id \<Rightarrow>
                    let row = \<lparr>page_url = pageUrl req, user_agent = userAgent req,
                               message_raw = messageRaw,
                               screenshot_url = screenshotUrl, ai_data = aiData,
                               project_id = projectId, row_status = js ''new''\<rparr>;
                        w3 = w2\<lparr>feedback_table := feedback_table w2 @ [(new_id, row)]\<rparr>;
                        w4 = w3\<lparr>notifications := notifications w3 @
                               [\<lparr>note_id = new_id, note_message_raw = messageRaw,
                                 note_page_url = pageUrl req, note_ai_data = aiData\<rparr>]\<rparr>
                    in (json_response 200
                          [(js ''id'', JStr new_id), (js ''ai_data'', json_of aiData),
                           (js ''message'', JStr (js ''Feedback received''))], w4)))"

definition POST :: "env \<Rightarrow> request \<Rightarrow> world \<Rightarrow> response \<times> world" where
  "POST e req w =
     (let ip = client_ip req;
          (admitted, m') = checkRateLimit ip (clock e) (rateLimitMap w);
          w0 = w\<lparr>rateLimitMap := m'\<rparr>
      in if \<not> admitted then
           (json_response 429 [(js ''error'', JStr (js ''Too many requests''))], w0)
         else
           (case formData req of
              None \<Rightarrow> (internal_error, w0)
            | Some fd \<Rightarrow> accept_form e req fd w0))"

text \<open>The keys of a response body, in order: its JSON shape.\<close>

definition body_keys :: "response \<Rightarrow> jsstring list" where
  "body_keys r = (case body r of JObj kvs \<Rightarrow> map fst kvs | _ \<Rightarrow> [])"

section \<open>Sample requests\<close>

text \<open>
  Concrete inputs at which the properties below are exercised: a model that is down, an
  environment without a model key in which uploads and insertions succeed, a request from
  one address with a given honeypot value and message, a fresh process, a process in
  which that address has used up its window, the same environment with a model key, and a
  request that carries a JPEG screenshot.
\<close>

definition silent_model :: ai_backend where
  "silent_model = \<lparr>generateContent = (\<lambda>_. Inl BackendError), JSON_parse = (\<lambda>_. Inl SyntaxError)\<rparr>"

definition sample_env :: env where
  "sample_env = \<lparr>clock = 1000, GEMINI_API_KEY = None, name_stamp = js ''1000'',
      name_random = js ''k3x9q'', upload_outcome = Uploaded,
      getPublicUrl = (\<lambda>p. js ''https://cdn/'' @ p), toBase64 = (\<lambda>_. js ''AAAA''),
      model = silent_model, insert_outcome = Inserted (js ''row-1'')\<rparr>"

definition sample_request :: "jsstring \<Rightarrow> jsstring \<Rightarrow> request" where
  "sample_request trap msg =
     \<lparr>headers = [js ''x-forwarded-for'' \<mapsto> js ''10.0.0.1, 10.0.0.2''],
      formData = Some \<lparr>website = Some trap, message = Some msg, screenshot = None, project = None\<rparr>\<rparr>"

definition empty_world :: world where
  "empty_world = \<lparr>rateLimitMap = Map.empty, bucket_uploads = [], feedback_table = [],
      notifications = [], analyze_calls = [], model_requests = []\<rparr>"

definition full_world :: world where
  "full_world = empty_world\<lparr>rateLimitMap := [js ''10.0.0.1'' \<mapsto> \<lparr>count = 10, resetAt = 5000\<rparr>]\<rparr>"

definition keyed_env :: env where
  "keyed_env = sample_env\<lparr>GEMINI_API_KEY := Some (js ''secret'')\<rparr>"

definition sample_shot :: js_file where
  "sample_shot = \<lparr>ftype = js ''image/jpeg'', fbytes = [0xFF, 0xD8, 0xFF, 0xE0]\<rparr>"

definition shot_form :: form_data where
  "shot_form = \<lparr>website = Some [], message = Some (js ''hi''), screenshot = Some sample_shot,
      project = Some (js ''docs'')\<rparr>"

definition shot_request :: request where
  "shot_request = \<lparr>headers = [js ''x-real-ip'' \<mapsto> js ''10.0.0.7''], formData = Some shot_form\<rparr>"

section \<open>The schema of the specification, and sample replies\<close>

text \<open>
  The schema of a classification as the specification words it: the required strings are
  present, the category and the priority lie in their closed sets, \<open>key_details\<close> is an
  array, and \<open>confidence\<close> is a number between 0 and 1.
\<close>

definition is_string :: "json option \<Rightarrow> bool" where
  "is_string x = (case x of Some (JStr _) \<Rightarrow> True | _ \<Rightarrow> False)"

definition is_unit_number :: "json option \<Rightarrow> bool" where
  "is_unit_number x = (case x of Some (JNum n) \<Rightarrow> 0 \<le> n \<and> n \<le> 1 | _ \<Rightarrow> False)"

definition satisfies_schema :: "json \<Rightarrow> bool" where
  "satisfies_schema v \<longleftrightarrow>
     is_string (get_prop v (js ''title'')) \<and>
     is_string (get_prop v (js ''short_summary'')) \<and>
     is_string (get_prop v (js ''suggested_feature_area'')) \<and>
     includes_js categories (get_prop v (js ''suggested_category'')) \<and>
     includes_js priorities (get_prop v (js ''suggested_priority'')) \<and>
     isArray (get_prop v (js ''key_details'')) \<and>
     is_unit_number (get_prop v (js ''confidence''))"

text \<open>
  A backend for examples: the model replies with a fixed text, and \<^verbatim>\<open>JSON.parse\<close> is
  given by a table that lists its value at the texts of interest; any other text is taken
  as a syntax error.
\<close>

definition table_backend :: "jsstring \<Rightarrow> (jsstring \<times> json) list \<Rightarrow> ai_backend" where
  "table_backend reply tbl =
     \<lparr>generateContent = (\<lambda>_. Inr reply),
      JSON_parse = (\<lambda>s. case map_of tbl s of Some v \<Rightarrow> Inr v | None \<Rightarrow> Inl SyntaxError)\<rparr>"

definition overconfident_text :: jsstring where
  \<open>overconfident_text =
     js ''{"title":"Export fails","short_summary":"Export button does nothing","key_details":[],"suggested_category":"bug","suggested_feature_area":"export","suggested_priority":"high","confidence":7}''\<close>

definition overconfident_value :: json where
  "overconfident_value =
     JObj [(js ''title'', JStr (js ''Export fails'')),
           (js ''short_summary'', JStr (js ''Export button does nothing'')),
           (js ''key_details'', JArr []),
           (js ''suggested_category'', JStr (js ''bug'')),
           (js ''suggested_feature_area'', JStr (js ''export'')),
           (js ''suggested_priority'', JStr (js ''high'')),
           (js ''confidence'', JNum 7)]"

text \<open>A reply text wrapped in a fenced code block: the tag, and white space around the text.\<close>

definition fenced :: "jsstring \<Rightarrow> jsstring \<Rightarrow> jsstring \<Rightarrow> jsstring \<Rightarrow> jsstring" where
  "fenced tag ws1 j ws2 = js ''```'' @ tag @ ws1 @ j @ ws2 @ js ''```''"

text \<open>
  A reply that satisfies the whole schema and whose summary quotes a fenced code block,
  with the value of \<^verbatim>\<open>JSON.parse\<close> at it and at \<^verbatim>\<open>{}\<close>.
\<close>

definition quoting_text :: jsstring where
  \<open>quoting_text =
     js ''{"title":"Fence breaks editor","short_summary":"Pasting ```{}``` fails","key_details":[],"suggested_category":"bug","suggested_feature_area":"editor","suggested_priority":"low","steps":[],"expected":null,"confidence":0.5,"clarifying_questions":[]}''\<close>

definition quoting_value :: json where
  "quoting_value =
     JObj [(js ''title'', JStr (js ''Fence breaks editor'')),
           (js ''short_summary'', JStr (js ''Pasting ```{}``` fails'')),
           (js ''key_details'', JArr []),
           (js ''suggested_category'', JStr (js ''bug'')),
           (js ''suggested_feature_area'', JStr (js ''editor'')),
           (js ''suggested_priority'', JStr (js ''low'')),
           (js ''steps'', JArr []),
           (js ''expected'', JNull),
           (js ''confidence'', JNum (1 / 2)),
           (js ''clarifying_questions'', JArr [])]"

definition quoting_table :: "(jsstring \<times> json) list" where
  "quoting_table = [(quoting_text, quoting_value), (js ''{}'', JObj [])]"

section \<open>Properties of the rate limiter\<close>

text \<open>
  C3. Each call of the limiter follows fixed-window counting: with no entry for the address,
  or with the clock past \<open>resetAt\<close>, the entry becomes \<open>(count = 1, resetAt = now + RATE_WINDOW)\<close>
  and the call admits; otherwise, with \<open>count \<ge> RATE_LIMIT\<close>, the call rejects and the whole
  map is left as it was; otherwise \<open>count\<close> grows by one, \<open>resetAt\<close> stays, and the call admits.
\<close>

theorem checkRateLimit_fixed_window:
  "(m ip = None \<or> (\<exists>e. m ip = Some e \<and> now > resetAt e) \<longrightarrow>
      checkRateLimit ip now m = (True, m(ip \<mapsto> \<lparr>count = 1, resetAt = now + RATE_WINDOW\<rparr>))) \<and>
   (\<forall>e. m ip = Some e \<and> \<not> now > resetAt e \<and> count e \<ge> RATE_LIMIT \<longrightarrow>
      checkRateLimit ip now m = (False, m)) \<and>
   (\<forall>e. m ip = Some e \<and> \<not> now > resetAt e \<and> \<not> count e \<ge> RATE_LIMIT \<longrightarrow>
      checkRateLimit ip now m = (True, m(ip \<mapsto> \<lparr>count = count e + 1, resetAt = resetAt e\<rparr>)))"
  by (auto simp: checkRateLimit_def)

theorem checkRateLimit_fixed_window_witness:
  "checkRateLimit (js ''a'') 5 Map.empty =
      (True, [js ''a'' \<mapsto> \<lparr>count = 1, resetAt = 5 + RATE_WINDOW\<rparr>]) \<and>
   checkRateLimit (js ''a'') 200 [js ''a'' \<mapsto> \<lparr>count = 10, resetAt = 100\<rparr>] =
      (True, [js ''a'' \<mapsto> \<lparr>count = 1, resetAt = 200 + RATE_WINDOW\<rparr>]) \<and>
   checkRateLimit (js ''a'') 50 [js ''a'' \<mapsto> \<lparr>count = 10, resetAt = 100\<rparr>] =
      (False, [js ''a'' \<mapsto> \<lparr>count = 10, resetAt = 100\<rparr>]) \<and>
   checkRateLimit (js ''a'') 50 [js ''a'' \<mapsto> \<lparr>count = 3, resetAt = 100\<rparr>] =
      (True, [js ''a'' \<mapsto> \<lparr>count = 4, resetAt = 100\<rparr>])"
  using checkRateLimit_fixed_window[of Map.empty "js ''a''" 5]
        checkRateLimit_fixed_window[of "[js ''a'' \<mapsto> \<lparr>count = 10, resetAt = 100\<rparr>]" "js ''a''" 200]
        checkRateLimit_fixed_window[of "[js ''a'' \<mapsto> \<lparr>count = 10, resetAt = 100\<rparr>]" "js ''a''" 50]
        checkRateLimit_fixed_window[of "[js ''a'' \<mapsto> \<lparr>count = 3, resetAt = 100\<rparr>]" "js ''a''" 50]
  by (simp add: RATE_LIMIT_def)

text \<open>
  Inside a window nothing resets: when every later request of the address carries a clock
  reading not past \<open>resetAt\<close>, the requests are admitted until \<open>count\<close> reaches the limit
  and rejected from then on, whatever other addresses do in between.
\<close>

lemma in_window:
  assumes "m ip = Some e" and "\<forall>r\<in>set rs. fst r = ip \<longrightarrow> snd r \<le> resetAt e"
  shows "verdicts_of ip rs (fst (checkRateLimit_seq m rs)) =
           replicate (min (requests_of ip rs) (nat (RATE_LIMIT - count e))) True @
           replicate (requests_of ip rs - nat (RATE_LIMIT - count e)) False"
  using assms
proof (induction rs arbitrary: m e)
  case Nil
  then show ?case by (simp add: verdicts_of_def requests_of_def)
next
  case (Cons r rs)
  obtain i t where r: "r = (i, t)" by (cases r)
  obtain a m' where st: "checkRateLimit i t m = (a, m')" by (cases "checkRateLimit i t m")
  obtain vs m'' where rest: "checkRateLimit_seq m' rs = (vs, m'')" by (cases "checkRateLimit_seq m' rs")
  have run: "fst (checkRateLimit_seq m ((i, t) # rs)) = a # vs"
    by (simp add: st rest)
  show ?case
  proof (cases "i = ip")
    case False
    then have "m' ip = Some e" using st Cons.prems(1)
      by (auto simp: checkRateLimit_def split: option.splits if_splits)
    from Cons.IH[of m' e] this Cons.prems(2) rest False show ?thesis
      unfolding r run by (simp add: verdicts_of_def requests_of_def)
  next
    case True
    then have t: "t \<le> resetAt e" using Cons.prems(2) r by simp
    show ?thesis
    proof (cases "count e \<ge> RATE_LIMIT")
      case full: True
      then have "a = False" "m' = m" using st t True Cons.prems(1)
        by (auto simp: checkRateLimit_def)
      with Cons.IH[of m e] Cons.prems rest full True show ?thesis
        unfolding r run by (simp add: verdicts_of_def requests_of_def)
    next
      case room: False
      then have a: "a = True" and m': "m' ip = Some (e\<lparr>count := count e + 1\<rparr>)"
        using st t True Cons.prems(1)
        by (auto simp: checkRateLimit_def)
      have "\<forall>r\<in>set rs. fst r = ip \<longrightarrow> snd r \<le> resetAt (e\<lparr>count := count e + 1\<rparr>)"
        using Cons.prems(2) by simp
      from Cons.IH[of m' "e\<lparr>count := count e + 1\<rparr>"] m' this rest
      have ih: "verdicts_of ip rs vs =
           replicate (min (requests_of ip rs) (nat (RATE_LIMIT - (count e + 1)))) True @
           replicate (requests_of ip rs - nat (RATE_LIMIT - (count e + 1))) False" by simp
      have n: "nat (RATE_LIMIT - count e) = Suc (nat (RATE_LIMIT - (count e + 1)))"
        using room by simp
      have "verdicts_of ip ((i, t) # rs) (a # vs) = True # verdicts_of ip rs vs"
        using True a by (simp add: verdicts_of_def)
      moreover have "requests_of ip ((i, t) # rs) = Suc (requests_of ip rs)"
        using True by (simp add: requests_of_def)
      ultimately show ?thesis
        unfolding r run ih n by simp
    qed
  qed
qed

text \<open>
  C4. Let a request of an address at time \<open>t0\<close> open a window (no entry, or the previous window
  has elapsed), and let every further request of that address in the sequence fall into the
  interval from \<open>t0\<close> to \<open>t0 + RATE_WINDOW\<close>, interleaved with any requests of other addresses.
  Then every request of the address has a verdict, at most \<open>RATE_LIMIT\<close> of them are admitted, and
  the request number \<open>RATE_LIMIT + 1\<close> (index \<open>RATE_LIMIT\<close> counting from zero) and all later ones
  are rejected.
\<close>

theorem at_most_LIMIT_per_window:
  assumes "m ip = None \<or> (\<exists>e. m ip = Some e \<and> t0 > resetAt e)"
      and "\<forall>r\<in>set rs. fst r = ip \<longrightarrow> t0 \<le> snd r \<and> snd r \<le> t0 + RATE_WINDOW"
  shows "length (verdicts_of ip ((ip, t0) # rs) (fst (checkRateLimit_seq m ((ip, t0) # rs))))
           = requests_of ip ((ip, t0) # rs) \<and>
         int (length (filter id
           (verdicts_of ip ((ip, t0) # rs) (fst (checkRateLimit_seq m ((ip, t0) # rs))))))
           \<le> RATE_LIMIT \<and>
         (\<forall>k. nat RATE_LIMIT \<le> k \<and> k < requests_of ip ((ip, t0) # rs) \<longrightarrow>
            \<not> verdicts_of ip ((ip, t0) # rs) (fst (checkRateLimit_seq m ((ip, t0) # rs))) ! k)"
proof -
  let ?e = "\<lparr>count = 1, resetAt = t0 + RATE_WINDOW\<rparr>"
  let ?m = "m(ip \<mapsto> ?e)"
  let ?n = "requests_of ip rs"
  have first: "checkRateLimit ip t0 m = (True, ?m)"
    using assms(1) by (auto simp: checkRateLimit_def)
  obtain vs m'' where rest: "checkRateLimit_seq ?m rs = (vs, m'')"
    by (cases "checkRateLimit_seq ?m rs")
  have "\<forall>r\<in>set rs. fst r = ip \<longrightarrow> snd r \<le> resetAt ?e"
    using assms(2) by simp
  from in_window[of ?m ip ?e rs] this rest
  have tail: "verdicts_of ip rs vs = replicate (min ?n 9) True @ replicate (?n - 9) False"
    by (simp add: RATE_LIMIT_def)
  have run: "fst (checkRateLimit_seq m ((ip, t0) # rs)) = True # vs"
    by (simp add: first rest)
  have all: "verdicts_of ip ((ip, t0) # rs) (True # vs) =
               replicate (Suc (min ?n 9)) True @ replicate (?n - 9) False"
    using tail by (simp add: verdicts_of_def)
  have n: "requests_of ip ((ip, t0) # rs) = Suc ?n"
    by (simp add: requests_of_def)
  have len: "length (verdicts_of ip ((ip, t0) # rs) (True # vs)) = Suc ?n"
    unfolding all by simp
  have cnt: "int (length (filter id (verdicts_of ip ((ip, t0) # rs) (True # vs)))) \<le> RATE_LIMIT"
    unfolding all by (simp add: RATE_LIMIT_def)
  have rej: "\<not> verdicts_of ip ((ip, t0) # rs) (True # vs) ! k"
    if "nat RATE_LIMIT \<le> k" "k < Suc ?n" for k
  proof -
    have k: "10 \<le> k" using that(1) by (simp add: RATE_LIMIT_def)
    then have m9: "min ?n 9 = 9" using that(2) by simp
    have "k - 10 < ?n - 9" using k that(2) by simp
    then show ?thesis
      unfolding all m9 using k by (simp add: nth_append nth_Cons')
  qed
  show ?thesis
    unfolding run n using len cnt rej by blast
qed

theorem at_most_LIMIT_per_window_witness:
  "requests_of (js ''10.0.0.1'') ((js ''10.0.0.1'', 1000) # replicate 10 (js ''10.0.0.1'', 2000)) = 11 \<and>
   \<not> verdicts_of (js ''10.0.0.1'') ((js ''10.0.0.1'', 1000) # replicate 10 (js ''10.0.0.1'', 2000))
        (fst (checkRateLimit_seq Map.empty
           ((js ''10.0.0.1'', 1000) # replicate 10 (js ''10.0.0.1'', 2000)))) ! 10"
proof -
  have h1: "(Map.empty :: rate_map) (js ''10.0.0.1'') = None \<or>
      (\<exists>e. (Map.empty :: rate_map) (js ''10.0.0.1'') = Some e \<and> 1000 > resetAt e)" by simp
  have h2: "\<forall>r\<in>set (replicate 10 (js ''10.0.0.1'', 2000)).
      fst r = js ''10.0.0.1'' \<longrightarrow> 1000 \<le> snd r \<and> snd r \<le> 1000 + RATE_WINDOW"
    by (simp add: RATE_WINDOW_def)
  have n: "requests_of (js ''10.0.0.1'') ((js ''10.0.0.1'', 1000) # replicate 10 (js ''10.0.0.1'', 2000)) = 11"
    by (simp add: requests_of_def)
  from at_most_LIMIT_per_window[OF h1 h2] n show ?thesis
    by (simp add: RATE_LIMIT_def)
qed

section \<open>Properties of the route\<close>

lemma trim_Nil: "trim [] = []" by (simp add: trim_def)

lemma honeypot_filled_iff:
  "honeypot_filled fd \<longleftrightarrow> (\<exists>h. website fd = Some h \<and> trim h \<noteq> [])"
  by (auto simp: honeypot_filled_def trim_Nil split: option.splits)

lemma POST_rejected:
  "checkRateLimit (client_ip req) (clock e) (rateLimitMap w) = (False, m') \<Longrightarrow>
   POST e req w = (json_response 429 [(js ''error'', JStr (js ''Too many requests''))], w\<lparr>rateLimitMap := m'\<rparr>)"
  by (simp add: POST_def)

lemma POST_admitted:
  "checkRateLimit (client_ip req) (clock e) (rateLimitMap w) = (True, m') \<Longrightarrow> formData req = Some fd \<Longrightarrow>
   POST e req w = accept_form e req fd (w\<lparr>rateLimitMap := m'\<rparr>)"
  by (simp add: POST_def)

lemma accept_form_bot:
  "honeypot_filled fd \<Longrightarrow>
   accept_form e req fd w =
     (json_response 200 [(js ''id'', JStr (js ''fake-id'')), (js ''message'', JStr (js ''Feedback sent''))], w)"
  by (simp add: accept_form_def)


lemma sample_ip: "client_ip (sample_request t m) = js ''10.0.0.1''"
  by (simp add: client_ip_def sample_request_def or_default_def or_else_def truthy_str_def js_def)

lemmas sample_defs = sample_env_def sample_request_def empty_world_def full_world_def silent_model_def
lemmas route_defs = POST_def accept_form_def honeypot_filled_def message_missing_def client_ip_def
  pageUrl_def userAgent_def
  json_response_def internal_error_def screenshot_step_def classify_step_def json_of_def
  or_default_def or_else_def truthy_str_def checkRateLimit_def RATE_LIMIT_def RATE_WINDOW_def
  trim_def is_space_def js_def body_keys_def

text \<open>
  C9. A request whose honeypot field is filled still passes through the limiter first: the
  world after the request is the world before with the limiter's map replaced by the map
  after \<open>checkRateLimit\<close>, and nothing else changed. When the limiter admits, the reply is
  the 200 and the entry of the address has just been created (\<open>count = 1\<close>) or its count has
  grown by one. When the address is at the limit inside its window, the reply is 429, not
  the synthetic 200.
\<close>

theorem honeypot_consumes_budget:
  assumes "formData req = Some fd" and "website fd = Some h" and "trim h \<noteq> []"
  shows "snd (POST e req w) =
           w\<lparr>rateLimitMap := snd (checkRateLimit (client_ip req) (clock e) (rateLimitMap w))\<rparr> \<and>
         (fst (checkRateLimit (client_ip req) (clock e) (rateLimitMap w)) \<longrightarrow>
            status (fst (POST e req w)) = 200 \<and>
            (\<exists>en. rateLimitMap (snd (POST e req w)) (client_ip req) = Some en \<and>
               (count en = 1 \<and> resetAt en = clock e + RATE_WINDOW \<or>
                (\<exists>old. rateLimitMap w (client_ip req) = Some old \<and> count en = count old + 1)))) \<and>
         (\<forall>old. rateLimitMap w (client_ip req) = Some old \<and> \<not> clock e > resetAt old \<and>
                count old \<ge> RATE_LIMIT \<longrightarrow>
            status (fst (POST e req w)) = 429 \<and> snd (POST e req w) = w)"
proof -
  let ?ip = "client_ip req"
  obtain a m' where c: "checkRateLimit ?ip (clock e) (rateLimitMap w) = (a, m')"
    by (cases "checkRateLimit ?ip (clock e) (rateLimitMap w)")
  have bot: "honeypot_filled fd"
    using assms(2,3) by (auto simp: honeypot_filled_iff)
  have post: "POST e req w =
      (if a then (json_response 200 [(js ''id'', JStr (js ''fake-id'')), (js ''message'', JStr (js ''Feedback sent''))],
                  w\<lparr>rateLimitMap := m'\<rparr>)
       else (json_response 429 [(js ''error'', JStr (js ''Too many requests''))], w\<lparr>rateLimitMap := m'\<rparr>))"
    using c assms(1) bot by (cases a) (simp_all add: POST_admitted POST_rejected accept_form_bot)
  have 1: "snd (POST e req w) = w\<lparr>rateLimitMap := snd (checkRateLimit ?ip (clock e) (rateLimitMap w))\<rparr>"
    by (simp add: post c)
  have 2: "status (fst (POST e req w)) = 200 \<and>
            (\<exists>en. rateLimitMap (snd (POST e req w)) ?ip = Some en \<and>
               (count en = 1 \<and> resetAt en = clock e + RATE_WINDOW \<or>
                (\<exists>old. rateLimitMap w ?ip = Some old \<and> count en = count old + 1)))"
    if "fst (checkRateLimit ?ip (clock e) (rateLimitMap w))"
  proof -
    have a: "a" using that c by simp
    have "\<exists>en. m' ?ip = Some en \<and>
               (count en = 1 \<and> resetAt en = clock e + RATE_WINDOW \<or>
                (\<exists>old. rateLimitMap w ?ip = Some old \<and> count en = count old + 1))"
      using c a by (auto simp: checkRateLimit_def split: option.splits if_splits)
    then show ?thesis using a by (simp add: post json_response_def)
  qed
  have 3: "status (fst (POST e req w)) = 429 \<and> snd (POST e req w) = w"
    if "rateLimitMap w ?ip = Some old \<and> \<not> clock e > resetAt old \<and> count old \<ge> RATE_LIMIT" for old
  proof -
    have "a = False" "m' = rateLimitMap w" using c that by (auto simp: checkRateLimit_def)
    then show ?thesis by (simp add: post json_response_def)
  qed
  from 1 2 3 show ?thesis by blast
qed

theorem honeypot_consumes_budget_witness:
  "status (fst (POST sample_env (sample_request (js ''http://spam.example'') (js ''hi'')) empty_world)) = 200 \<and>
   rateLimitMap (snd (POST sample_env (sample_request (js ''http://spam.example'') (js ''hi'')) empty_world))
      (js ''10.0.0.1'') = Some \<lparr>count = 1, resetAt = 61000\<rparr> \<and>
   status (fst (POST sample_env (sample_request (js ''http://spam.example'') (js ''hi'')) full_world)) = 429"
proof -
  let ?req = "sample_request (js ''http://spam.example'') (js ''hi'')"
  let ?fd = "\<lparr>website = Some (js ''http://spam.example''), message = Some (js ''hi''), screenshot = None, project = None\<rparr>"
  have f: "formData ?req = Some ?fd" by (simp add: sample_request_def)
  have h: "website ?fd = Some (js ''http://spam.example'')" by simp
  have t: "trim (js ''http://spam.example'') \<noteq> []" by (simp add: trim_def is_space_def js_def)
  have ip: "client_ip ?req = js ''10.0.0.1''" by (rule sample_ip)
  have c1: "checkRateLimit (js ''10.0.0.1'') (clock sample_env) (rateLimitMap empty_world) =
              (True, [js ''10.0.0.1'' \<mapsto> \<lparr>count = 1, resetAt = 61000\<rparr>])"
    by (simp add: checkRateLimit_def sample_env_def empty_world_def RATE_WINDOW_def)
  have c2: "rateLimitMap full_world (js ''10.0.0.1'') = Some \<lparr>count = 10, resetAt = 5000\<rparr>"
    by (simp add: full_world_def)
  from honeypot_consumes_budget[OF f h t, of sample_env empty_world]
       honeypot_consumes_budget[OF f h t, of sample_env full_world]
  show ?thesis
    unfolding ip using c1 c2 by (simp add: RATE_LIMIT_def sample_env_def)
qed

text \<open>
  C1, as amended. For every request that the limiter admits and whose honeypot field is
  non-empty after trimming, the handler replies 200 with the body
  \<^verbatim>\<open>{ id: 'fake-id', message: 'Feedback sent' }\<close> and stores no row, uploads nothing, calls
  no model and dispatches no notification. The body has an \<open>id\<close> and a \<open>message\<close> and no
  \<open>ai_data\<close> field.
\<close>

theorem honeypot_silent_success:
  assumes "formData req = Some fd" and "website fd = Some h" and "trim h \<noteq> []"
      and "fst (checkRateLimit (client_ip req) (clock e) (rateLimitMap w))"
  shows "fst (POST e req w) =
           \<lparr>status = 200,
            body = JObj [(js ''id'', JStr (js ''fake-id'')), (js ''message'', JStr (js ''Feedback sent''))]\<rparr> \<and>
         feedback_table (snd (POST e req w)) = feedback_table w \<and>
         bucket_uploads (snd (POST e req w)) = bucket_uploads w \<and>
         notifications (snd (POST e req w)) = notifications w \<and>
         analyze_calls (snd (POST e req w)) = analyze_calls w \<and>
         model_requests (snd (POST e req w)) = model_requests w"
proof -
  obtain m' where c: "checkRateLimit (client_ip req) (clock e) (rateLimitMap w) = (True, m')"
    using assms(4) by (cases "checkRateLimit (client_ip req) (clock e) (rateLimitMap w)") simp
  have bot: "honeypot_filled fd"
    using assms(2,3) by (auto simp: honeypot_filled_iff)
  show ?thesis
    by (simp add: POST_admitted[OF c assms(1)] accept_form_bot[OF bot] json_response_def)
qed

theorem honeypot_silent_success_witness:
  "fst (POST sample_env (sample_request (js ''x'') (js ''hi'')) empty_world) =
     \<lparr>status = 200,
      body = JObj [(js ''id'', JStr (js ''fake-id'')), (js ''message'', JStr (js ''Feedback sent''))]\<rparr> \<and>
   feedback_table (snd (POST sample_env (sample_request (js ''x'') (js ''hi'')) empty_world)) = []"
proof -
  let ?req = "sample_request (js ''x'') (js ''hi'')"
  let ?fd = "\<lparr>website = Some (js ''x''), message = Some (js ''hi''), screenshot = None, project = None\<rparr>"
  have f: "formData ?req = Some ?fd" by (simp add: sample_request_def)
  have h: "website ?fd = Some (js ''x'')" by simp
  have t: "trim (js ''x'') \<noteq> []" by (simp add: trim_def is_space_def js_def)
  have c: "fst (checkRateLimit (client_ip ?req) (clock sample_env) (rateLimitMap empty_world))"
    by (simp add: checkRateLimit_def empty_world_def)
  from honeypot_silent_success[OF f h t c] show ?thesis
    by (simp add: empty_world_def)
qed

text \<open>
  The synthetic reply does not have the shape of a genuine acceptance: at the same
  environment, the reply to a filled honeypot has the keys \<open>id, message\<close>, the reply to an
  empty one has the keys \<open>id, ai_data, message\<close>. And a filled honeypot from an address at
  its limit is answered with 429.
\<close>

theorem honeypot_response_shape_counterexample:
  "body_keys (fst (POST sample_env (sample_request (js ''x'') (js ''hi'')) empty_world)) =
     [js ''id'', js ''message''] \<and>
   body_keys (fst (POST sample_env (sample_request [] (js ''hi'')) empty_world)) =
     [js ''id'', js ''ai_data'', js ''message''] \<and>
   body_keys (fst (POST sample_env (sample_request (js ''x'') (js ''hi'')) empty_world)) \<noteq>
     body_keys (fst (POST sample_env (sample_request [] (js ''hi'')) empty_world)) \<and>
   status (fst (POST sample_env (sample_request (js ''x'') (js ''hi'')) full_world)) = 429"
  by (simp add: sample_defs route_defs Let_def)

lemma analyzeFeedback_returns: "\<exists>r. snd (analyzeFeedback b m s k) = Inr r"
  by (simp add: analyzeFeedback_def split: sum.splits)

lemma classify_step_returns: "\<exists>r. fst (classify_step e m s) = Inr r"
proof (cases "truthy_str (GEMINI_API_KEY e)")
  case True
  obtain reqs r where a: "analyzeFeedback (model e) m (or_else s None) (or_default (GEMINI_API_KEY e) []) = (reqs, r)"
    by (cases "analyzeFeedback (model e) m (or_else s None) (or_default (GEMINI_API_KEY e) [])")
  from analyzeFeedback_returns[of "model e" m "or_else s None" "or_default (GEMINI_API_KEY e) []"] a
  show ?thesis using True by (simp add: classify_step_def)
next
  case False
  then show ?thesis by (simp add: classify_step_def)
qed

lemma message_present: "message fd = Some msg \<Longrightarrow> trim msg \<noteq> [] \<Longrightarrow> \<not> message_missing fd \<and> or_default (message fd) [] = msg"
  by (auto simp: message_missing_def or_default_def trim_Nil)

lemma accept_form_invalid:
  "\<not> honeypot_filled fd \<Longrightarrow> message_missing fd \<Longrightarrow>
   accept_form e req fd w = (json_response 400 [(js ''error'', JStr (js ''Message is required''))], w)"
  by (simp add: accept_form_def)

lemma accept_form_valid:
  assumes "\<not> honeypot_filled fd" and "message fd = Some msg" and "trim msg \<noteq> []"
      and "screenshot_step e (screenshot fd) = (url, b64, ups)"
      and "classify_step e msg b64 = (Inr ai, reqs, calls)"
  shows "accept_form e req fd w =
     (case insert_outcome e of
        InsertFailed \<Rightarrow>
          (json_response 500 [(js ''error'', JStr (js ''Failed to save feedback''))],
           w\<lparr>bucket_uploads := bucket_uploads w @ ups, analyze_calls := analyze_calls w @ calls,
             model_requests := model_requests w @ reqs\<rparr>)
      | Inserted i \<Rightarrow>
          (json_response 200 [(js ''id'', JStr i), (js ''ai_data'', json_of ai),
                              (js ''message'', JStr (js ''Feedback received''))],
           w\<lparr>bucket_uploads := bucket_uploads w @ ups, analyze_calls := analyze_calls w @ calls,
             model_requests := model_requests w @ reqs,
             feedback_table := feedback_table w @
               [(i, \<lparr>page_url = pageUrl req, user_agent = userAgent req, message_raw = msg,
                     screenshot_url = url, ai_data = ai, project_id = or_else (project fd) None,
                     row_status = js ''new''\<rparr>)],
             notifications := notifications w @
               [\<lparr>note_id = i, note_message_raw = msg, note_page_url = pageUrl req, note_ai_data = ai\<rparr>]\<rparr>))"
  using assms message_present[OF assms(2,3)]
  by (simp add: accept_form_def Let_def split: insert_result.splits)

text \<open>
  C6, as amended. For every request that the limiter admits and whose honeypot field is
  empty (or blank, or absent), a message that is empty or only white space is rejected
  with 400 and the body \<^verbatim>\<open>{ error: 'Message is required' }\<close>, whatever the screenshot, the
  project, the headers and the environment are; nothing is stored, uploaded, classified or
  notified.
\<close>

theorem empty_message_rejected:
  assumes "formData req = Some fd"
      and "fst (checkRateLimit (client_ip req) (clock e) (rateLimitMap w))"
      and "\<not> honeypot_filled fd"
      and "message fd = Some msg" and "trim msg = []"
  shows "fst (POST e req w) =
           \<lparr>status = 400, body = JObj [(js ''error'', JStr (js ''Message is required''))]\<rparr> \<and>
         feedback_table (snd (POST e req w)) = feedback_table w \<and>
         bucket_uploads (snd (POST e req w)) = bucket_uploads w \<and>
         notifications (snd (POST e req w)) = notifications w \<and>
         analyze_calls (snd (POST e req w)) = analyze_calls w \<and>
         model_requests (snd (POST e req w)) = model_requests w"
proof -
  obtain m' where c: "checkRateLimit (client_ip req) (clock e) (rateLimitMap w) = (True, m')"
    using assms(2) by (cases "checkRateLimit (client_ip req) (clock e) (rateLimitMap w)") simp
  have "message_missing fd" using assms(4,5) by (simp add: message_missing_def)
  from accept_form_invalid[OF assms(3) this] show ?thesis
    by (simp add: POST_admitted[OF c assms(1)] json_response_def)
qed

theorem empty_message_rejected_witness:
  "fst (POST sample_env (sample_request [] (js ''   '')) empty_world) =
     \<lparr>status = 400, body = JObj [(js ''error'', JStr (js ''Message is required''))]\<rparr>"
proof -
  let ?req = "sample_request [] (js ''   '')"
  let ?fd = "\<lparr>website = Some [], message = Some (js ''   ''), screenshot = None, project = None\<rparr>"
  have f: "formData ?req = Some ?fd" by (simp add: sample_request_def)
  have c: "fst (checkRateLimit (client_ip ?req) (clock sample_env) (rateLimitMap empty_world))"
    by (simp add: checkRateLimit_def empty_world_def)
  have h: "\<not> honeypot_filled ?fd" by (simp add: honeypot_filled_def)
  have m: "message ?fd = Some (js ''   '')" by simp
  have t: "trim (js ''   '') = []" by (simp add: trim_def is_space_def js_def)
  from empty_message_rejected[OF f c h m t] show ?thesis by simp
qed

text \<open>
  The other fields do matter: with a filled honeypot the same blank message gets the
  synthetic 200, and from an address at its limit it gets 429.
\<close>

theorem empty_message_not_always_400_counterexample:
  "status (fst (POST sample_env (sample_request (js ''x'') (js ''   '')) empty_world)) = 200 \<and>
   status (fst (POST sample_env (sample_request [] (js ''   '')) full_world)) = 429"
  by (simp add: sample_defs route_defs Let_def)

text \<open>
  C5. For a request that reaches the insertion (admitted, honeypot empty, message present):
  when the insertion fails the status is 500, no notification is dispatched and no row is
  stored; when the classification yields \<^verbatim>\<open>null\<close> and the insertion succeeds the status is
  200, the body carries \<open>ai_data = null\<close>, and one row with the message, no classification and
  status \<open>new\<close> has been added to the table.
\<close>

theorem insertion_and_classification_failure:
  assumes "formData req = Some fd"
      and "fst (checkRateLimit (client_ip req) (clock e) (rateLimitMap w))"
      and "\<not> honeypot_filled fd"
      and "message fd = Some msg" and "trim msg \<noteq> []"
  shows "(insert_outcome e = InsertFailed \<longrightarrow>
            status (fst (POST e req w)) = 500 \<and>
            notifications (snd (POST e req w)) = notifications w \<and>
            feedback_table (snd (POST e req w)) = feedback_table w) \<and>
         (\<forall>i. insert_outcome e = Inserted i \<and>
              fst (classify_step e msg (fst (snd (screenshot_step e (screenshot fd))))) = Inr None \<longrightarrow>
            status (fst (POST e req w)) = 200 \<and>
            body (fst (POST e req w)) =
              JObj [(js ''id'', JStr i), (js ''ai_data'', JNull),
                    (js ''message'', JStr (js ''Feedback received''))] \<and>
            (\<exists>row. feedback_table (snd (POST e req w)) = feedback_table w @ [(i, row)] \<and>
                   message_raw row = msg \<and> ai_data row = None \<and> row_status row = js ''new''))"
proof -
  obtain m' where c: "checkRateLimit (client_ip req) (clock e) (rateLimitMap w) = (True, m')"
    using assms(2) by (cases "checkRateLimit (client_ip req) (clock e) (rateLimitMap w)") simp
  obtain url b64 ups where s: "screenshot_step e (screenshot fd) = (url, b64, ups)"
    by (cases "screenshot_step e (screenshot fd)")
  obtain ai reqs calls where k: "classify_step e msg b64 = (Inr ai, reqs, calls)"
    using classify_step_returns[of e msg b64] by (cases "classify_step e msg b64") auto
  note post = POST_admitted[OF c assms(1)] accept_form_valid[OF assms(3,4,5) s k]
  have 1: "status (fst (POST e req w)) = 500 \<and>
            notifications (snd (POST e req w)) = notifications w \<and>
            feedback_table (snd (POST e req w)) = feedback_table w"
    if "insert_outcome e = InsertFailed"
    using that by (simp add: post json_response_def)
  have 2: "status (fst (POST e req w)) = 200 \<and>
            body (fst (POST e req w)) =
              JObj [(js ''id'', JStr i), (js ''ai_data'', JNull),
                    (js ''message'', JStr (js ''Feedback received''))] \<and>
            (\<exists>row. feedback_table (snd (POST e req w)) = feedback_table w @ [(i, row)] \<and>
                   message_raw row = msg \<and> ai_data row = None \<and> row_status row = js ''new'')"
    if "insert_outcome e = Inserted i \<and>
        fst (classify_step e msg (fst (snd (screenshot_step e (screenshot fd))))) = Inr None" for i
  proof -
    have "ai = None" using that s k by simp
    with that show ?thesis by (simp add: post json_response_def json_of_def)
  qed
  from 1 2 show ?thesis by blast
qed


theorem insertion_and_classification_failure_witness:
  "status (fst (POST (sample_env\<lparr>insert_outcome := InsertFailed\<rparr>) (sample_request [] (js ''hi'')) empty_world)) = 500 \<and>
   notifications (snd (POST (sample_env\<lparr>insert_outcome := InsertFailed\<rparr>) (sample_request [] (js ''hi'')) empty_world)) = [] \<and>
   status (fst (POST keyed_env (sample_request [] (js ''hi'')) empty_world)) = 200 \<and>
   body (fst (POST keyed_env (sample_request [] (js ''hi'')) empty_world)) =
     JObj [(js ''id'', JStr (js ''row-1'')), (js ''ai_data'', JNull),
           (js ''message'', JStr (js ''Feedback received''))] \<and>
   length (feedback_table (snd (POST keyed_env (sample_request [] (js ''hi'')) empty_world))) = 1"
proof -
  let ?req = "sample_request [] (js ''hi'')"
  let ?fd = "\<lparr>website = Some [], message = Some (js ''hi''), screenshot = None, project = None\<rparr>"
  let ?e1 = "sample_env\<lparr>insert_outcome := InsertFailed\<rparr>"
  have f: "formData ?req = Some ?fd" by (simp add: sample_request_def)
  have c1: "fst (checkRateLimit (client_ip ?req) (clock ?e1) (rateLimitMap empty_world))"
    by (simp add: checkRateLimit_def empty_world_def)
  have c2: "fst (checkRateLimit (client_ip ?req) (clock keyed_env) (rateLimitMap empty_world))"
    by (simp add: checkRateLimit_def empty_world_def)
  have h: "\<not> honeypot_filled ?fd" by (simp add: honeypot_filled_def)
  have m: "message ?fd = Some (js ''hi'')" by simp
  have t: "trim (js ''hi'') \<noteq> []" by (simp add: trim_def is_space_def js_def)
  have i1: "insert_outcome ?e1 = InsertFailed" by simp
  have i2: "insert_outcome keyed_env = Inserted (js ''row-1'')"
    by (simp add: keyed_env_def sample_env_def)
  have k: "fst (classify_step keyed_env (js ''hi'') (fst (snd (screenshot_step keyed_env (screenshot ?fd))))) = Inr None"
    by (simp add: classify_step_def screenshot_step_def keyed_env_def sample_env_def silent_model_def
        truthy_str_def or_default_def or_else_def analyzeFeedback_def analyze_try_def js_def)
  from insertion_and_classification_failure[OF f c1 h m t]
       insertion_and_classification_failure[OF f c2 h m t] i1 i2 k
  show ?thesis by (auto simp: empty_world_def)
qed

lemma mime_of_png_url:
  "mime_match (js ''data:image/png;base64,'' @ x) = Some (js ''image/png'')"
  by (simp add: js_def)

lemma data_of_png_url:
  "second_segment (js ''data:image/png;base64,'' @ x) = takeWhile (\<lambda>c. c \<noteq> 0x2C) x"
  by (simp add: js_def second_segment_def)

lemma build_parts_png:
  "build_parts msg (Some (js ''data:image/png;base64,'' @ x)) =
     [TextPart (prompt msg), InlineData (js ''image/png'') (takeWhile (\<lambda>c. c \<noteq> 0x2C) x)]"
proof -
  have ne: "js ''data:image/png;base64,'' @ x \<noteq> []" by (simp add: js_def)
  have comma: "0x2C \<in> set (js ''data:image/png;base64,'' @ x)" by (simp add: js_def)
  have pre: "strip_prefix (js ''data:'') (js ''data:image/png;base64,'' @ x) \<noteq> None"
    by (simp add: js_def)
  show ?thesis
    using ne comma pre
    by (auto simp: build_parts_def Let_def mime_of_png_url data_of_png_url split: option.splits)
qed

lemma screenshot_step_present:
  "fbytes f \<noteq> [] \<Longrightarrow>
   screenshot_step e (Some f) =
     ((case upload_outcome e of
         Uploaded \<Rightarrow> Some (getPublicUrl e (name_stamp e @ js ''-'' @ name_random e @ js ''.png''))
       | UploadFailed \<Rightarrow> None),
      Some (js ''data:image/png;base64,'' @ toBase64 e (fbytes f)),
      [\<lparr>path = name_stamp e @ js ''-'' @ name_random e @ js ''.png'', content = fbytes f,
        contentType = js ''image/png'', cacheControl = js ''3600''\<rparr>])"
  by (simp add: screenshot_step_def Let_def)

lemma classify_step_keyed:
  "GEMINI_API_KEY e = Some key \<Longrightarrow> key \<noteq> [] \<Longrightarrow> s \<noteq> [] \<Longrightarrow>
   snd (classify_step e msg (Some s)) =
     ([build_parts msg (Some s)],
      [\<lparr>call_messageRaw = msg, call_screenshotBase64 = Some s, call_geminiApiKey = key\<rparr>])"
  by (simp add: classify_step_def truthy_str_def or_default_def or_else_def analyzeFeedback_def
      split: prod.splits)

lemma build_parts_derived:
  assumes "s \<noteq> []" and "strip_prefix (js ''data:'') s \<noteq> None" and "mime_match s = Some g"
  shows "\<exists>d. build_parts msg (Some s) = [TextPart (prompt msg), InlineData g d]"
  using assms by (auto simp: build_parts_def Let_def split: option.splits)

text \<open>
  C10. For a request that reaches the screenshot step with a non-empty screenshot, whatever
  the type of the file: the upload goes under the generated name ending in \<open>.png\<close> with
  content type \<open>image/png\<close>; the copy kept for the model is the data URL that opens with
  \<open>data:image/png;base64,\<close>; on that copy the client's test for \<open>data:\<close> succeeds and its
  pattern yields \<open>image/png\<close>; the client puts the type that the pattern yields, whatever it
  is, on the inline part; and, when a model key is configured, \<open>analyzeFeedback\<close> is called
  once, with that copy, and the one request to the model carries the prompt and an inline
  part of type \<open>image/png\<close>.
\<close>

theorem screenshot_handled_as_png:
  assumes "formData req = Some fd"
      and "fst (checkRateLimit (client_ip req) (clock e) (rateLimitMap w))"
      and "\<not> honeypot_filled fd"
      and "message fd = Some msg" and "trim msg \<noteq> []"
      and "screenshot fd = Some f" and "fbytes f \<noteq> []"
  shows "bucket_uploads (snd (POST e req w)) =
           bucket_uploads w @
             [\<lparr>path = name_stamp e @ js ''-'' @ name_random e @ js ''.png'', content = fbytes f,
               contentType = js ''image/png'', cacheControl = js ''3600''\<rparr>] \<and>
         fst (snd (screenshot_step e (screenshot fd))) =
           Some (js ''data:image/png;base64,'' @ toBase64 e (fbytes f)) \<and>
         strip_prefix (js ''data:'') (js ''data:image/png;base64,'' @ toBase64 e (fbytes f)) =
           Some (js ''image/png;base64,'' @ toBase64 e (fbytes f)) \<and>
         mime_match (js ''data:image/png;base64,'' @ toBase64 e (fbytes f)) = Some (js ''image/png'') \<and>
         (\<forall>s g. s \<noteq> [] \<and> strip_prefix (js ''data:'') s \<noteq> None \<and> mime_match s = Some g \<longrightarrow>
            (\<exists>d. build_parts msg (Some s) = [TextPart (prompt msg), InlineData g d])) \<and>
         (\<forall>key. GEMINI_API_KEY e = Some key \<and> key \<noteq> [] \<longrightarrow>
            analyze_calls (snd (POST e req w)) =
              analyze_calls w @
                [\<lparr>call_messageRaw = msg,
                  call_screenshotBase64 = Some (js ''data:image/png;base64,'' @ toBase64 e (fbytes f)),
                  call_geminiApiKey = key\<rparr>] \<and>
            model_requests (snd (POST e req w)) =
              model_requests w @
                [[TextPart (prompt msg),
                  InlineData (js ''image/png'') (takeWhile (\<lambda>c. c \<noteq> 0x2C) (toBase64 e (fbytes f)))]])"
proof -
  let ?b64 = "js ''data:image/png;base64,'' @ toBase64 e (fbytes f)"
  let ?up = "\<lparr>path = name_stamp e @ js ''-'' @ name_random e @ js ''.png'', content = fbytes f,
               contentType = js ''image/png'', cacheControl = js ''3600''\<rparr>"
  obtain m' where c: "checkRateLimit (client_ip req) (clock e) (rateLimitMap w) = (True, m')"
    using assms(2) by (cases "checkRateLimit (client_ip req) (clock e) (rateLimitMap w)") simp
  obtain ai reqs calls where k: "classify_step e msg (Some ?b64) = (Inr ai, reqs, calls)"
    using classify_step_returns[of e msg "Some ?b64"] by (cases "classify_step e msg (Some ?b64)") auto
  have s: "screenshot_step e (screenshot fd) =
     ((case upload_outcome e of
         Uploaded \<Rightarrow> Some (getPublicUrl e (name_stamp e @ js ''-'' @ name_random e @ js ''.png''))
       | UploadFailed \<Rightarrow> None),
      Some ?b64, [?up])"
    using assms(6,7) by (simp add: screenshot_step_present)
  note post = POST_admitted[OF c assms(1)] accept_form_valid[OF assms(3,4,5) s k]
  have 1: "bucket_uploads (snd (POST e req w)) = bucket_uploads w @ [?up]"
    by (simp add: post split: insert_result.splits)
  have 2: "fst (snd (screenshot_step e (screenshot fd))) = Some ?b64"
    by (simp add: s)
  have 3: "strip_prefix (js ''data:'') ?b64 = Some (js ''image/png;base64,'' @ toBase64 e (fbytes f))"
    by (simp add: js_def)
  have 4: "mime_match ?b64 = Some (js ''image/png'')"
    by (rule mime_of_png_url)
  have 5: "\<forall>s g. s \<noteq> [] \<and> strip_prefix (js ''data:'') s \<noteq> None \<and> mime_match s = Some g \<longrightarrow>
            (\<exists>d. build_parts msg (Some s) = [TextPart (prompt msg), InlineData g d])"
    using build_parts_derived by blast
  have a: "analyze_calls (snd (POST e req w)) = analyze_calls w @ calls"
    by (simp add: post split: insert_result.splits)
  have r: "model_requests (snd (POST e req w)) = model_requests w @ reqs"
    by (simp add: post split: insert_result.splits)
  have 6: "analyze_calls (snd (POST e req w)) =
              analyze_calls w @
                [\<lparr>call_messageRaw = msg, call_screenshotBase64 = Some ?b64, call_geminiApiKey = key\<rparr>] \<and>
            model_requests (snd (POST e req w)) =
              model_requests w @
                [[TextPart (prompt msg),
                  InlineData (js ''image/png'') (takeWhile (\<lambda>c. c \<noteq> 0x2C) (toBase64 e (fbytes f)))]]"
    if "GEMINI_API_KEY e = Some key \<and> key \<noteq> []" for key
  proof -
    have "?b64 \<noteq> []" by (simp add: js_def)
    from classify_step_keyed[of e key ?b64 msg] that this k
    have "reqs = [build_parts msg (Some ?b64)]"
      and "calls = [\<lparr>call_messageRaw = msg, call_screenshotBase64 = Some ?b64, call_geminiApiKey = key\<rparr>]"
      by simp_all
    then show ?thesis by (simp add: a r build_parts_png)
  qed
  show ?thesis
    apply (intro conjI)
         apply (rule 1)
        apply (rule 2)
       apply (rule 3)
      apply (rule 4)
     apply (rule 5)
    using 6 apply blast
    done
qed

theorem screenshot_handled_as_png_witness:
  "map contentType (bucket_uploads (snd (POST keyed_env shot_request empty_world))) = [js ''image/png''] \<and>
   map path (bucket_uploads (snd (POST keyed_env shot_request empty_world))) = [js ''1000-k3x9q.png''] \<and>
   map call_screenshotBase64 (analyze_calls (snd (POST keyed_env shot_request empty_world))) =
     [Some (js ''data:image/png;base64,AAAA'')] \<and>
   model_requests (snd (POST keyed_env shot_request empty_world)) =
     [[TextPart (prompt (js ''hi'')), InlineData (js ''image/png'') (js ''AAAA'')]] \<and>
   (\<exists>d. build_parts (js ''hi'') (Some (js ''data:image/jpeg;base64,QUJD'')) =
      [TextPart (prompt (js ''hi'')), InlineData (js ''image/jpeg'') d])"
proof -
  have f: "formData shot_request = Some shot_form" by (simp add: shot_request_def)
  have c: "fst (checkRateLimit (client_ip shot_request) (clock keyed_env) (rateLimitMap empty_world))"
    by (simp add: checkRateLimit_def empty_world_def)
  have h: "\<not> honeypot_filled shot_form" by (simp add: honeypot_filled_def shot_form_def)
  have m: "message shot_form = Some (js ''hi'')" by (simp add: shot_form_def)
  have t: "trim (js ''hi'') \<noteq> []" by (simp add: trim_def is_space_def js_def)
  have s: "screenshot shot_form = Some sample_shot" by (simp add: shot_form_def)
  have b: "fbytes sample_shot \<noteq> []" by (simp add: sample_shot_def)
  have k: "GEMINI_API_KEY keyed_env = Some (js ''secret'') \<and> js ''secret'' \<noteq> []"
    by (simp add: keyed_env_def js_def)
  have j: "js ''data:image/jpeg;base64,QUJD'' \<noteq> [] \<and>
           strip_prefix (js ''data:'') (js ''data:image/jpeg;base64,QUJD'') \<noteq> None \<and>
           mime_match (js ''data:image/jpeg;base64,QUJD'') = Some (js ''image/jpeg'')"
    by (simp add: js_def)
  note inst = screenshot_handled_as_png[OF f c h m t s b]
  from inst k have calls: "analyze_calls (snd (POST keyed_env shot_request empty_world)) =
      analyze_calls empty_world @
        [\<lparr>call_messageRaw = js ''hi'',
          call_screenshotBase64 =
            Some (js ''data:image/png;base64,'' @ toBase64 keyed_env (fbytes sample_shot)),
          call_geminiApiKey = js ''secret''\<rparr>]"
    and reqs: "model_requests (snd (POST keyed_env shot_request empty_world)) =
      model_requests empty_world @
        [[TextPart (prompt (js ''hi'')),
          InlineData (js ''image/png'')
            (takeWhile (\<lambda>c. c \<noteq> 0x2C) (toBase64 keyed_env (fbytes sample_shot)))]]"
    by blast+
  from inst have ups: "bucket_uploads (snd (POST keyed_env shot_request empty_world)) =
      bucket_uploads empty_world @
        [\<lparr>path = name_stamp keyed_env @ js ''-'' @ name_random keyed_env @ js ''.png'',
          content = fbytes sample_shot, contentType = js ''image/png'', cacheControl = js ''3600''\<rparr>]"
    by blast
  from inst j have der: "\<exists>d. build_parts (js ''hi'') (Some (js ''data:image/jpeg;base64,QUJD'')) =
      [TextPart (prompt (js ''hi'')), InlineData (js ''image/jpeg'') d]"
    by blast
  show ?thesis
    unfolding calls reqs ups using der
    by (simp add: empty_world_def keyed_env_def sample_env_def sample_shot_def js_def)
qed

lemma classify_step_env:
  "classify_step (e\<lparr>upload_outcome := u\<rparr>) msg s = classify_step e msg s"
  "classify_step (e\<lparr>toBase64 := g\<rparr>) msg s = classify_step e msg s"
  by (simp_all add: classify_step_def)

text \<open>
  C8. For a request with a non-empty screenshot that reaches a successful insertion, compare
  the environment in which the upload fails with the one in which it succeeds, all else
  equal. Both reply the same 200; both store one row, and the rows agree in every field but
  \<open>screenshot_url\<close>, which is the public URL after a successful upload and absent after a
  failed one; the rest of the world is the same. The row holds the page URL, the user agent,
  the message, the screenshot URL, the classification, the project and the status; the
  notification holds the id, the message, the page URL and the classification; the bucket
  receives the raw bytes. The base64 text is the argument of the classification step and
  nothing else: with any other encoder that leads to the same classification, the reply is
  the same and the world is the same but for the recorded calls of \<open>analyzeFeedback\<close> and the
  requests to the model.
\<close>

theorem upload_failure_tolerated:
  assumes "formData req = Some fd"
      and "fst (checkRateLimit (client_ip req) (clock e) (rateLimitMap w))"
      and "\<not> honeypot_filled fd"
      and "message fd = Some msg" and "trim msg \<noteq> []"
      and "screenshot fd = Some f" and "fbytes f \<noteq> []"
      and "insert_outcome e = Inserted i"
  shows "\<exists>ai row.
           fst (classify_step e msg (Some (js ''data:image/png;base64,'' @ toBase64 e (fbytes f)))) = Inr ai \<and>
           row = \<lparr>page_url = pageUrl req, user_agent = userAgent req, message_raw = msg,
                  screenshot_url = Some (getPublicUrl e (name_stamp e @ js ''-'' @ name_random e @ js ''.png'')),
                  ai_data = ai, project_id = or_else (project fd) None, row_status = js ''new''\<rparr> \<and>
           feedback_table (snd (POST (e\<lparr>upload_outcome := Uploaded\<rparr>) req w)) =
             feedback_table w @ [(i, row)] \<and>
           feedback_table (snd (POST (e\<lparr>upload_outcome := UploadFailed\<rparr>) req w)) =
             feedback_table w @ [(i, row\<lparr>screenshot_url := None\<rparr>)] \<and>
           fst (POST (e\<lparr>upload_outcome := UploadFailed\<rparr>) req w) =
             \<lparr>status = 200,
              body = JObj [(js ''id'', JStr i), (js ''ai_data'', json_of ai),
                           (js ''message'', JStr (js ''Feedback received''))]\<rparr> \<and>
           fst (POST (e\<lparr>upload_outcome := UploadFailed\<rparr>) req w) =
             fst (POST (e\<lparr>upload_outcome := Uploaded\<rparr>) req w) \<and>
           snd (POST (e\<lparr>upload_outcome := UploadFailed\<rparr>) req w) =
             (snd (POST (e\<lparr>upload_outcome := Uploaded\<rparr>) req w))
               \<lparr>feedback_table := feedback_table w @ [(i, row\<lparr>screenshot_url := None\<rparr>)]\<rparr> \<and>
           bucket_uploads (snd (POST (e\<lparr>upload_outcome := UploadFailed\<rparr>) req w)) =
             bucket_uploads w @
               [\<lparr>path = name_stamp e @ js ''-'' @ name_random e @ js ''.png'', content = fbytes f,
                 contentType = js ''image/png'', cacheControl = js ''3600''\<rparr>] \<and>
           notifications (snd (POST (e\<lparr>upload_outcome := UploadFailed\<rparr>) req w)) =
             notifications w @
               [\<lparr>note_id = i, note_message_raw = msg, note_page_url = pageUrl req, note_ai_data = ai\<rparr>] \<and>
           analyze_calls (snd (POST (e\<lparr>upload_outcome := UploadFailed\<rparr>) req w)) =
             analyze_calls w @
               snd (snd (classify_step e msg (Some (js ''data:image/png;base64,'' @ toBase64 e (fbytes f))))) \<and>
           model_requests (snd (POST (e\<lparr>upload_outcome := UploadFailed\<rparr>) req w)) =
             model_requests w @
               fst (snd (classify_step e msg (Some (js ''data:image/png;base64,'' @ toBase64 e (fbytes f))))) \<and>
           (\<forall>g. fst (classify_step e msg (Some (js ''data:image/png;base64,'' @ g (fbytes f)))) = Inr ai \<longrightarrow>
              fst (POST (e\<lparr>toBase64 := g\<rparr>) req w) = fst (POST e req w) \<and>
              (snd (POST (e\<lparr>toBase64 := g\<rparr>) req w))
                 \<lparr>analyze_calls := analyze_calls (snd (POST e req w)),
                  model_requests := model_requests (snd (POST e req w))\<rparr> = snd (POST e req w))"
proof -
  let ?name = "name_stamp e @ js ''-'' @ name_random e @ js ''.png''"
  let ?b64 = "js ''data:image/png;base64,'' @ toBase64 e (fbytes f)"
  let ?ok = "e\<lparr>upload_outcome := Uploaded\<rparr>"
  let ?ko = "e\<lparr>upload_outcome := UploadFailed\<rparr>"
  obtain m' where c: "checkRateLimit (client_ip req) (clock e) (rateLimitMap w) = (True, m')"
    using assms(2) by (cases "checkRateLimit (client_ip req) (clock e) (rateLimitMap w)") simp
  obtain ai reqs calls where k: "classify_step e msg (Some ?b64) = (Inr ai, reqs, calls)"
    using classify_step_returns[of e msg "Some ?b64"] by (cases "classify_step e msg (Some ?b64)") auto
  let ?row = "\<lparr>page_url = pageUrl req, user_agent = userAgent req, message_raw = msg,
                  screenshot_url = Some (getPublicUrl e ?name),
                  ai_data = ai, project_id = or_else (project fd) None, row_status = js ''new''\<rparr>"
  let ?up = "\<lparr>path = ?name, content = fbytes f, contentType = js ''image/png'', cacheControl = js ''3600''\<rparr>"
  let ?note = "\<lparr>note_id = i, note_message_raw = msg, note_page_url = pageUrl req, note_ai_data = ai\<rparr>"
  let ?reply = "json_response 200 [(js ''id'', JStr i), (js ''ai_data'', json_of ai),
                          (js ''message'', JStr (js ''Feedback received''))]"
  have c_ok: "checkRateLimit (client_ip req) (clock ?ok) (rateLimitMap w) = (True, m')"
   and c_ko: "checkRateLimit (client_ip req) (clock ?ko) (rateLimitMap w) = (True, m')"
    using c by simp_all
  have s_ok: "screenshot_step ?ok (screenshot fd) = (Some (getPublicUrl e ?name), Some ?b64, [?up])"
    using assms(6,7) by (simp add: screenshot_step_present)
  have s_ko: "screenshot_step ?ko (screenshot fd) = (None, Some ?b64, [?up])"
    using assms(6,7) by (simp add: screenshot_step_present)
  have k_ok: "classify_step ?ok msg (Some ?b64) = (Inr ai, reqs, calls)"
   and k_ko: "classify_step ?ko msg (Some ?b64) = (Inr ai, reqs, calls)"
    using k by (simp_all add: classify_step_env)
  have p_ok: "POST ?ok req w =
      (?reply,
       w\<lparr>rateLimitMap := m', bucket_uploads := bucket_uploads w @ [?up],
         analyze_calls := analyze_calls w @ calls,
         model_requests := model_requests w @ reqs,
         feedback_table := feedback_table w @ [(i, ?row)],
         notifications := notifications w @ [?note]\<rparr>)"
    using assms(8)
    by (simp add: POST_admitted[OF c_ok assms(1)] accept_form_valid[OF assms(3,4,5) s_ok k_ok])
  have p_ko: "POST ?ko req w =
      (?reply,
       w\<lparr>rateLimitMap := m', bucket_uploads := bucket_uploads w @ [?up],
         analyze_calls := analyze_calls w @ calls,
         model_requests := model_requests w @ reqs,
         feedback_table := feedback_table w @ [(i, ?row\<lparr>screenshot_url := None\<rparr>)],
         notifications := notifications w @ [?note]\<rparr>)"
    using assms(8)
    by (simp add: POST_admitted[OF c_ko assms(1)] accept_form_valid[OF assms(3,4,5) s_ko k_ko])
  have enc: "fst (POST (e\<lparr>toBase64 := g\<rparr>) req w) = fst (POST e req w) \<and>
              (snd (POST (e\<lparr>toBase64 := g\<rparr>) req w))
                 \<lparr>analyze_calls := analyze_calls (snd (POST e req w)),
                  model_requests := model_requests (snd (POST e req w))\<rparr> = snd (POST e req w)"
    if g: "fst (classify_step e msg (Some (js ''data:image/png;base64,'' @ g (fbytes f)))) = Inr ai" for g
  proof -
    let ?g = "e\<lparr>toBase64 := g\<rparr>"
    let ?url = "case upload_outcome e of Uploaded \<Rightarrow> Some (getPublicUrl e ?name) | UploadFailed \<Rightarrow> None"
    let ?rowe = "\<lparr>page_url = pageUrl req, user_agent = userAgent req, message_raw = msg,
                  screenshot_url = ?url,
                  ai_data = ai, project_id = or_else (project fd) None, row_status = js ''new''\<rparr>"
    obtain reqs' calls' where
      k': "classify_step e msg (Some (js ''data:image/png;base64,'' @ g (fbytes f))) = (Inr ai, reqs', calls')"
      using g by (cases "classify_step e msg (Some (js ''data:image/png;base64,'' @ g (fbytes f)))") simp
    have kg: "classify_step ?g msg (Some (js ''data:image/png;base64,'' @ g (fbytes f))) = (Inr ai, reqs', calls')"
      using k' by (simp add: classify_step_env)
    have cg: "checkRateLimit (client_ip req) (clock ?g) (rateLimitMap w) = (True, m')"
      using c by simp
    have sg: "screenshot_step ?g (screenshot fd) =
                (?url, Some (js ''data:image/png;base64,'' @ g (fbytes f)), [?up])"
      using assms(6,7) by (simp add: screenshot_step_present split: upload_result.splits)
    have se: "screenshot_step e (screenshot fd) = (?url, Some ?b64, [?up])"
      using assms(6,7) by (simp add: screenshot_step_present)
    have pg: "POST ?g req w =
      (?reply,
       w\<lparr>rateLimitMap := m', bucket_uploads := bucket_uploads w @ [?up],
         analyze_calls := analyze_calls w @ calls',
         model_requests := model_requests w @ reqs',
         feedback_table := feedback_table w @ [(i, ?rowe)],
         notifications := notifications w @ [?note]\<rparr>)"
      using assms(8)
      by (simp add: POST_admitted[OF cg assms(1)] accept_form_valid[OF assms(3,4,5) sg kg])
    have pe: "POST e req w =
      (?reply,
       w\<lparr>rateLimitMap := m', bucket_uploads := bucket_uploads w @ [?up],
         analyze_calls := analyze_calls w @ calls,
         model_requests := model_requests w @ reqs,
         feedback_table := feedback_table w @ [(i, ?rowe)],
         notifications := notifications w @ [?note]\<rparr>)"
      using assms(8)
      by (simp add: POST_admitted[OF c assms(1)] accept_form_valid[OF assms(3,4,5) se k])
    show ?thesis by (simp add: pg pe)
  qed
  have f1: "fst (classify_step e msg (Some ?b64)) = Inr ai" using k by simp
  have f2: "feedback_table (snd (POST ?ok req w)) = feedback_table w @ [(i, ?row)]"
    by (simp add: p_ok)
  have f3: "feedback_table (snd (POST ?ko req w)) = feedback_table w @ [(i, ?row\<lparr>screenshot_url := None\<rparr>)]"
    by (simp add: p_ko)
  have f4: "fst (POST ?ko req w) =
             \<lparr>status = 200,
              body = JObj [(js ''id'', JStr i), (js ''ai_data'', json_of ai),
                           (js ''message'', JStr (js ''Feedback received''))]\<rparr>"
    by (simp add: p_ko json_response_def)
  have f5: "fst (POST ?ko req w) = fst (POST ?ok req w)"
    by (simp add: p_ko p_ok)
  have f6: "snd (POST ?ko req w) =
             (snd (POST ?ok req w))\<lparr>feedback_table := feedback_table w @ [(i, ?row\<lparr>screenshot_url := None\<rparr>)]\<rparr>"
    by (simp add: p_ko p_ok)
  have f7: "bucket_uploads (snd (POST ?ko req w)) = bucket_uploads w @ [?up]"
    by (simp add: p_ko)
  have f8: "notifications (snd (POST ?ko req w)) = notifications w @ [?note]"
    by (simp add: p_ko)
  have f9: "analyze_calls (snd (POST ?ko req w)) = analyze_calls w @ snd (snd (classify_step e msg (Some ?b64)))"
    by (simp add: p_ko k)
  have f10: "model_requests (snd (POST ?ko req w)) = model_requests w @ fst (snd (classify_step e msg (Some ?b64)))"
    by (simp add: p_ko k)
  have f11: "\<forall>g. fst (classify_step e msg (Some (js ''data:image/png;base64,'' @ g (fbytes f)))) = Inr ai \<longrightarrow>
              fst (POST (e\<lparr>toBase64 := g\<rparr>) req w) = fst (POST e req w) \<and>
              (snd (POST (e\<lparr>toBase64 := g\<rparr>) req w))
                 \<lparr>analyze_calls := analyze_calls (snd (POST e req w)),
                  model_requests := model_requests (snd (POST e req w))\<rparr> = snd (POST e req w)"
    using enc by blast
  show ?thesis
    apply (rule exI[of _ ai])
    apply (rule exI[of _ ?row])
    apply (intro conjI)
               apply (rule f1)
              apply (rule refl)
             apply (rule f2)
            apply (rule f3)
           apply (rule f4)
          apply (rule f5)
         apply (rule f6)
        apply (rule f7)
       apply (rule f8)
      apply (rule f9)
     apply (rule f10)
    apply (rule f11)
    done
qed

theorem upload_failure_tolerated_witness:
  "status (fst (POST (keyed_env\<lparr>upload_outcome := UploadFailed\<rparr>) shot_request empty_world)) = 200 \<and>
   map (screenshot_url \<circ> snd)
     (feedback_table (snd (POST (keyed_env\<lparr>upload_outcome := Uploaded\<rparr>) shot_request empty_world))) =
     [Some (js ''https://cdn/1000-k3x9q.png'')] \<and>
   map (screenshot_url \<circ> snd)
     (feedback_table (snd (POST (keyed_env\<lparr>upload_outcome := UploadFailed\<rparr>) shot_request empty_world))) =
     [None] \<and>
   map (message_raw \<circ> snd)
     (feedback_table (snd (POST (keyed_env\<lparr>upload_outcome := UploadFailed\<rparr>) shot_request empty_world))) =
     [js ''hi''] \<and>
   map note_message_raw
     (notifications (snd (POST (keyed_env\<lparr>upload_outcome := UploadFailed\<rparr>) shot_request empty_world))) =
     [js ''hi''] \<and>
   feedback_table (snd (POST (keyed_env\<lparr>toBase64 := (\<lambda>_. js ''QkJC'')\<rparr>) shot_request empty_world)) =
     feedback_table (snd (POST keyed_env shot_request empty_world)) \<and>
   notifications (snd (POST (keyed_env\<lparr>toBase64 := (\<lambda>_. js ''QkJC'')\<rparr>) shot_request empty_world)) =
     notifications (snd (POST keyed_env shot_request empty_world))"
proof -
  let ?ok = "keyed_env\<lparr>upload_outcome := Uploaded\<rparr>"
  let ?ko = "keyed_env\<lparr>upload_outcome := UploadFailed\<rparr>"
  let ?g = "\<lambda>_ :: bytes. js ''QkJC''"
  have f: "formData shot_request = Some shot_form" by (simp add: shot_request_def)
  have c: "fst (checkRateLimit (client_ip shot_request) (clock keyed_env) (rateLimitMap empty_world))"
    by (simp add: checkRateLimit_def empty_world_def)
  have h: "\<not> honeypot_filled shot_form" by (simp add: honeypot_filled_def shot_form_def)
  have m: "message shot_form = Some (js ''hi'')" by (simp add: shot_form_def)
  have t: "trim (js ''hi'') \<noteq> []" by (simp add: trim_def is_space_def js_def)
  have s: "screenshot shot_form = Some sample_shot" by (simp add: shot_form_def)
  have b: "fbytes sample_shot \<noteq> []" by (simp add: sample_shot_def)
  have i: "insert_outcome keyed_env = Inserted (js ''row-1'')"
    by (simp add: keyed_env_def sample_env_def)
  have u: "getPublicUrl keyed_env (name_stamp keyed_env @ js ''-'' @ name_random keyed_env @ js ''.png'') =
             js ''https://cdn/1000-k3x9q.png''"
    by (simp add: keyed_env_def sample_env_def js_def)
  have w: "feedback_table empty_world = []" "notifications empty_world = []"
    by (simp_all add: empty_world_def)
  have down: "fst (classify_step keyed_env (js ''hi'') x) = Inr None" for x
    by (simp add: classify_step_def keyed_env_def sample_env_def silent_model_def truthy_str_def
        or_default_def analyzeFeedback_def analyze_try_def js_def split: prod.splits)
  from upload_failure_tolerated[OF f c h m t s b i] obtain ai row where
    a: "fst (classify_step keyed_env (js ''hi'')
          (Some (js ''data:image/png;base64,'' @ toBase64 keyed_env (fbytes sample_shot)))) = Inr ai"
    and r: "row = \<lparr>page_url = pageUrl shot_request, user_agent = userAgent shot_request,
                 message_raw = js ''hi'',
                 screenshot_url = Some (getPublicUrl keyed_env
                    (name_stamp keyed_env @ js ''-'' @ name_random keyed_env @ js ''.png'')),
                 ai_data = ai, project_id = or_else (project shot_form) None, row_status = js ''new''\<rparr>"
    and t_ok: "feedback_table (snd (POST ?ok shot_request empty_world)) =
                 feedback_table empty_world @ [(js ''row-1'', row)]"
    and t_ko: "feedback_table (snd (POST ?ko shot_request empty_world)) =
                 feedback_table empty_world @ [(js ''row-1'', row\<lparr>screenshot_url := None\<rparr>)]"
    and resp: "fst (POST ?ko shot_request empty_world) =
             \<lparr>status = 200,
              body = JObj [(js ''id'', JStr (js ''row-1'')), (js ''ai_data'', json_of ai),
                           (js ''message'', JStr (js ''Feedback received''))]\<rparr>"
    and n_ko: "notifications (snd (POST ?ko shot_request empty_world)) =
             notifications empty_world @
               [\<lparr>note_id = js ''row-1'', note_message_raw = js ''hi'',
                 note_page_url = pageUrl shot_request, note_ai_data = ai\<rparr>]"
    and enc: "\<forall>g. fst (classify_step keyed_env (js ''hi'')
                  (Some (js ''data:image/png;base64,'' @ g (fbytes sample_shot)))) = Inr ai \<longrightarrow>
              fst (POST (keyed_env\<lparr>toBase64 := g\<rparr>) shot_request empty_world) =
                fst (POST keyed_env shot_request empty_world) \<and>
              (snd (POST (keyed_env\<lparr>toBase64 := g\<rparr>) shot_request empty_world))
                 \<lparr>analyze_calls := analyze_calls (snd (POST keyed_env shot_request empty_world)),
                  model_requests := model_requests (snd (POST keyed_env shot_request empty_world))\<rparr> =
                snd (POST keyed_env shot_request empty_world)"
    by blast
  have "ai = None" using a down by simp
  with enc[rule_format, of ?g] down
  have same: "(snd (POST (keyed_env\<lparr>toBase64 := ?g\<rparr>) shot_request empty_world))
                 \<lparr>analyze_calls := analyze_calls (snd (POST keyed_env shot_request empty_world)),
                  model_requests := model_requests (snd (POST keyed_env shot_request empty_world))\<rparr> =
                snd (POST keyed_env shot_request empty_world)"
    by simp
  have e1: "feedback_table (snd (POST (keyed_env\<lparr>toBase64 := ?g\<rparr>) shot_request empty_world)) =
     feedback_table (snd (POST keyed_env shot_request empty_world))"
    using arg_cong[OF same, of feedback_table] by simp
  have e2: "notifications (snd (POST (keyed_env\<lparr>toBase64 := ?g\<rparr>) shot_request empty_world)) =
     notifications (snd (POST keyed_env shot_request empty_world))"
    using arg_cong[OF same, of notifications] by simp
  show ?thesis
    unfolding t_ok t_ko resp n_ko w r u using e1 e2 by simp
qed

section \<open>Properties of the classification client\<close>

text \<open>
  A reply that passes the guard and breaks the schema: every checked field is in order and
  \<open>confidence\<close> is 7. The client returns the parsed value as it is.
\<close>

theorem analyzeFeedback_unchecked_confidence_counterexample:
  "snd (analyzeFeedback (table_backend overconfident_text [(overconfident_text, overconfident_value)])
          (js ''Export button does nothing'') None (js ''secret'')) = Inr (Some overconfident_value) \<and>
   \<not> satisfies_schema overconfident_value"
proof -
  have x: "extract_json overconfident_text = overconfident_text"
    by (simp add: overconfident_text_def extract_json_def trim_def is_space_def js_def fence_at_def)
  have v: "valid_structure overconfident_value = Inr True"
    by (simp add: valid_structure_def overconfident_value_def get_prop_def truthy_def isArray_def
        includes_js_def categories_def priorities_def js_def)
  have n: "\<not> satisfies_schema overconfident_value"
    by (simp add: satisfies_schema_def overconfident_value_def get_prop_def is_unit_number_def js_def)
  have ne: "overconfident_text \<noteq> []" "js ''secret'' \<noteq> []"
    by (simp_all add: overconfident_text_def js_def)
  show ?thesis
    using ne n by (simp add: analyzeFeedback_def analyze_try_def extract_and_parse_def table_backend_def x v)
qed

text \<open>
  C2, as amended. For every model, message, screenshot and key, \<open>analyzeFeedback\<close> does not
  raise and returns either \<^verbatim>\<open>null\<close> or an object in which \<open>title\<close>, \<open>short_summary\<close> and
  \<open>suggested_feature_area\<close> are present and truthy, \<open>key_details\<close> is an array,
  \<open>suggested_category\<close> is one of the six categories and \<open>suggested_priority\<close> one of the
  three priorities. Nothing is said about \<open>confidence\<close>, \<open>steps\<close>, \<open>expected\<close> and
  \<open>clarifying_questions\<close>, which the client does not inspect.
\<close>

theorem analyzeFeedback_null_or_checked:
  "\<exists>r. snd (analyzeFeedback b msg shot key) = Inr r \<and>
       (r = None \<or>
        (\<exists>kvs details category priority.
           r = Some (JObj kvs) \<and>
           truthy (map_of kvs (js ''title'')) \<and>
           truthy (map_of kvs (js ''short_summary'')) \<and>
           truthy (map_of kvs (js ''suggested_feature_area'')) \<and>
           map_of kvs (js ''key_details'') = Some (JArr details) \<and>
           map_of kvs (js ''suggested_category'') = Some (JStr category) \<and>
           category \<in> set categories \<and>
           map_of kvs (js ''suggested_priority'') = Some (JStr priority) \<and>
           priority \<in> set priorities))"
proof -
  have valid: "\<exists>kvs details category priority.
           v = JObj kvs \<and>
           truthy (map_of kvs (js ''title'')) \<and>
           truthy (map_of kvs (js ''short_summary'')) \<and>
           truthy (map_of kvs (js ''suggested_feature_area'')) \<and>
           map_of kvs (js ''key_details'') = Some (JArr details) \<and>
           map_of kvs (js ''suggested_category'') = Some (JStr category) \<and>
           category \<in> set categories \<and>
           map_of kvs (js ''suggested_priority'') = Some (JStr priority) \<and>
           priority \<in> set priorities"
    if "valid_structure v = Inr True" for v
  proof (cases v)
    case (JObj kvs)
    with that have t: "truthy (map_of kvs (js ''title''))" "truthy (map_of kvs (js ''short_summary''))"
        "truthy (map_of kvs (js ''suggested_feature_area''))"
      and a: "isArray (map_of kvs (js ''key_details''))"
      and c: "includes_js categories (map_of kvs (js ''suggested_category''))"
      and p: "includes_js priorities (map_of kvs (js ''suggested_priority''))"
      by (simp_all add: valid_structure_def get_prop_def)
    from a obtain details where "map_of kvs (js ''key_details'') = Some (JArr details)"
      by (auto simp: isArray_def split: option.splits json.splits)
    moreover from c obtain category where
      "map_of kvs (js ''suggested_category'') = Some (JStr category)" "category \<in> set categories"
      by (auto simp: includes_js_def split: option.splits json.splits)
    moreover from p obtain priority where
      "map_of kvs (js ''suggested_priority'') = Some (JStr priority)" "priority \<in> set priorities"
      by (auto simp: includes_js_def split: option.splits json.splits)
    ultimately show ?thesis using JObj t by blast
  qed (use that in \<open>simp_all add: valid_structure_def get_prop_def truthy_def\<close>)
  have tried: "r = None \<or> (\<exists>v. r = Some v \<and> valid_structure v = Inr True)"
    if "analyze_try b msg shot = Inr r" for r
    using that
    by (auto simp: analyze_try_def split: sum.splits if_splits)
  show ?thesis
  proof (cases "key = []")
    case True
    then show ?thesis by (simp add: analyzeFeedback_def)
  next
    case False
    show ?thesis
    proof (cases "analyze_try b msg shot")
      case (Inl e)
      with False show ?thesis by (simp add: analyzeFeedback_def)
    next
      case (Inr r)
      with False have "snd (analyzeFeedback b msg shot key) = Inr r"
        by (simp add: analyzeFeedback_def)
      moreover from tried[OF Inr] valid have "r = None \<or>
        (\<exists>kvs details category priority.
           r = Some (JObj kvs) \<and>
           truthy (map_of kvs (js ''title'')) \<and>
           truthy (map_of kvs (js ''short_summary'')) \<and>
           truthy (map_of kvs (js ''suggested_feature_area'')) \<and>
           map_of kvs (js ''key_details'') = Some (JArr details) \<and>
           map_of kvs (js ''suggested_category'') = Some (JStr category) \<and>
           category \<in> set categories \<and>
           map_of kvs (js ''suggested_priority'') = Some (JStr priority) \<and>
           priority \<in> set priorities)"
        by blast
      ultimately show ?thesis by blast
    qed
  qed
qed

lemma strip_prefix_append: "strip_prefix p (p @ s) = Some s"
  by (induction p) auto

lemma dropWhile_spaces:
  "\<forall>c\<in>set ws. is_space c \<Longrightarrow> \<not> is_space y \<Longrightarrow> dropWhile is_space (ws @ y # ys) = y # ys"
  by (induction ws) auto

lemma trim_tight:
  assumes "x \<noteq> []" and "\<not> is_space (hd x)" and "\<not> is_space (last x)"
  shows "trim x = x"
proof -
  have 1: "dropWhile is_space x = x"
    using assms(1,2) by (cases x) auto
  have "x = butlast x @ [last x]"
    using assms(1) by simp
  then have "rev x = last x # rev (butlast x)"
    by (metis rev_singleton_conv rev_append append_Cons append_Nil)
  then obtain r where r: "rev x = last x # r" by blast
  have 2: "dropWhile is_space (rev x) = rev x"
    unfolding r using assms(3) by simp
  show ?thesis by (simp add: trim_def 1 2)
qed

lemma not_space: "\<not> is_space 0x60" "\<not> is_space 0x7B" "\<not> is_space 0x7D"
  by (simp_all add: is_space_def)

lemma closes_fence: "\<forall>c\<in>set ws. is_space c \<Longrightarrow> closes (ws @ js ''```'')"
proof -
  assume "\<forall>c\<in>set ws. is_space c"
  then have "dropWhile is_space (ws @ 0x60 # [0x60, 0x60]) = 0x60 # [0x60, 0x60]"
    by (rule dropWhile_spaces) (rule not_space)
  then show ?thesis by (simp add: closes_def js_def)
qed

lemma greedy_body_no_brace: "0x7D \<notin> set s \<Longrightarrow> greedy_body s = None"
  by (induction s) auto

lemma greedy_body_last:
  assumes "\<forall>c\<in>set ws. is_space c"
  shows "greedy_body (mid @ 0x7D # ws @ js ''```'') = Some (mid @ [0x7D])"
proof (induction mid)
  case Nil
  have "0x7D \<notin> set (ws @ js ''```'')"
    using assms not_space(3) by (auto simp: js_def)
  then have "greedy_body (ws @ js ''```'') = None" by (rule greedy_body_no_brace)
  then show ?case using closes_fence[OF assms] by simp
next
  case (Cons x mid)
  then show ?case by simp
qed

lemma fence_body_spaced:
  assumes "\<forall>c\<in>set ws1. is_space c" and "\<forall>c\<in>set ws2. is_space c"
  shows "fence_body (ws1 @ (0x7B # mid @ [0x7D]) @ ws2 @ js ''```'') = Some (0x7B # mid @ [0x7D])"
proof -
  have "dropWhile is_space (ws1 @ 0x7B # (mid @ 0x7D # ws2 @ js ''```'')) = 0x7B # (mid @ 0x7D # ws2 @ js ''```'')"
    using assms(1) not_space(2) by (rule dropWhile_spaces)
  then show ?thesis
    using greedy_body_last[OF assms(2), of mid] by (simp add: fence_body_def)
qed

lemma no_json_tag:
  assumes "\<forall>c\<in>set ws1. is_space c"
  shows "strip_prefix (js ''json'') (ws1 @ 0x7B # r) = None"
proof (cases ws1)
  case Nil
  then show ?thesis by (simp add: js_def)
next
  case (Cons c cs)
  then have "is_space c" using assms by simp
  then have "c \<noteq> 0x6A" by (auto simp: is_space_def)
  then show ?thesis using Cons by (simp add: js_def)
qed

lemma fence_at_fenced:
  assumes "tag = [] \<or> tag = js ''json''"
      and "\<forall>c\<in>set ws1. is_space c" and "\<forall>c\<in>set ws2. is_space c"
  shows "fence_at (fenced tag ws1 (0x7B # mid @ [0x7D]) ws2) = Some (0x7B # mid @ [0x7D])"
proof -
  let ?j = "0x7B # mid @ [0x7D]"
  have body: "fence_body (ws1 @ ?j @ ws2 @ js ''```'') = Some ?j"
    using assms(2,3) by (rule fence_body_spaced)
  have open_fence: "strip_prefix (js ''```'') (fenced tag ws1 ?j ws2) = Some (tag @ ws1 @ ?j @ ws2 @ js ''```'')"
    unfolding fenced_def by (rule strip_prefix_append)
  from assms(1) show ?thesis
  proof
    assume t: "tag = []"
    have "strip_prefix (js ''json'') (ws1 @ 0x7B # (mid @ [0x7D]) @ ws2 @ js ''```'') = None"
      using assms(2) by (rule no_json_tag)
    then show ?thesis
      using body open_fence unfolding t by (simp add: fence_at_def)
  next
    assume t: "tag = js ''json''"
    have "strip_prefix (js ''json'') (js ''json'' @ ws1 @ ?j @ ws2 @ js ''```'') = Some (ws1 @ ?j @ ws2 @ js ''```'')"
      by (rule strip_prefix_append)
    then show ?thesis
      using body open_fence unfolding t by (simp add: fence_at_def)
  qed
qed

lemma fence_match_head: "fence_at s = Some g \<Longrightarrow> s \<noteq> [] \<Longrightarrow> fence_match s = Some g"
  by (cases s) simp_all

text \<open>
  A text that opens and ends with a brace, wrapped in a fenced block with or without the
  \<open>json\<close> tag and any white space between fence and text, is extracted whole, whatever it
  contains.
\<close>

lemma extract_json_fenced:
  assumes "tag = [] \<or> tag = js ''json''"
      and "\<forall>c\<in>set ws1. is_space c" and "\<forall>c\<in>set ws2. is_space c"
  shows "extract_json (fenced tag ws1 (0x7B # mid @ [0x7D]) ws2) = 0x7B # mid @ [0x7D]"
proof -
  let ?t = "fenced tag ws1 (0x7B # mid @ [0x7D]) ws2"
  have shape: "?t \<noteq> []" "hd ?t = 0x60" "last ?t = 0x60"
    by (simp_all add: fenced_def js_def)
  have "trim ?t = ?t"
    using shape(1) by (rule trim_tight) (simp_all add: shape(2,3) not_space)
  moreover have "fence_match ?t = Some (0x7B # mid @ [0x7D])"
    using fence_at_fenced[OF assms, of mid] shape(1) by (rule fence_match_head)
  ultimately show ?thesis by (simp add: extract_json_def)
qed

text \<open>Sent bare, such a text is taken as it is when the pattern finds no match in it.\<close>

lemma extract_json_bare:
  assumes "fence_match (0x7B # mid @ [0x7D]) = None"
  shows "extract_json (0x7B # mid @ [0x7D]) = 0x7B # mid @ [0x7D]"
proof -
  have "trim (0x7B # mid @ [0x7D]) = 0x7B # mid @ [0x7D]"
    by (rule trim_tight) (simp_all add: not_space)
  then show ?thesis using assms by (simp add: extract_json_def)
qed

text \<open>A text without three backticks in a row has no match of the pattern.\<close>

lemma fence_match_none:
  "(\<forall>n. strip_prefix (js ''```'') (drop n s) = None) \<Longrightarrow> fence_match s = None"
proof (induction s)
  case Nil
  then show ?case by simp
next
  case (Cons c cs)
  from Cons.prems[rule_format, of 0] have "fence_at (c # cs) = None"
    by (simp add: fence_at_def)
  moreover have "\<forall>n. strip_prefix (js ''```'') (drop n cs) = None"
  proof
    fix n from Cons.prems[rule_format, of "Suc n"]
    show "strip_prefix (js ''```'') (drop n cs) = None" by simp
  qed
  ultimately show ?case using Cons.IH by simp
qed

text \<open>
  C7. The claim fails on the code at a reply that satisfies the whole schema and quotes a
  fenced block in its summary. Sent bare, the pattern matches inside the string, the
  extraction yields the quoted \<^verbatim>\<open>{}\<close>, and \<open>analyzeFeedback\<close> returns \<^verbatim>\<open>null\<close>. Sent in a
  fenced block, the extraction yields the whole text and \<open>analyzeFeedback\<close> returns the
  classification.
\<close>

theorem fence_pattern_fires_inside_bare_reply:
  "extract_json quoting_text = js ''{}'' \<and>
   extract_json (fenced (js ''json'') [0x0A] quoting_text [0x0A]) = quoting_text \<and>
   extract_and_parse (table_backend [] quoting_table) quoting_text = Inr (JObj []) \<and>
   extract_and_parse (table_backend [] quoting_table) (fenced (js ''json'') [0x0A] quoting_text [0x0A]) =
     Inr quoting_value \<and>
   satisfies_schema quoting_value \<and>
   snd (analyzeFeedback (table_backend quoting_text quoting_table)
          (js ''Pasting a code fence fails'') None (js ''secret'')) = Inr None \<and>
   snd (analyzeFeedback
          (table_backend (fenced (js ''json'') [0x0A] quoting_text [0x0A]) quoting_table)
          (js ''Pasting a code fence fails'') None (js ''secret'')) = Inr (Some quoting_value)"
proof -
  let ?wrapped = "fenced (js ''json'') [0x0A] quoting_text [0x0A]"
  have 1: "extract_json quoting_text = js ''{}''"
    by (simp add: extract_json_def quoting_text_def trim_def is_space_def js_def
        fence_at_def fence_body_def closes_def)
  have q: "quoting_text = 0x7B # butlast (tl quoting_text) @ [0x7D]"
    by (simp add: quoting_text_def js_def)
  have sp: "\<forall>c\<in>set [0x0A :: char16]. is_space c" by (simp add: is_space_def)
  have 2: "extract_json ?wrapped = quoting_text"
    using extract_json_fenced[of "js ''json''" "[0x0A]" "[0x0A]" "butlast (tl quoting_text)"] sp q
    by simp
  have t1: "map_of quoting_table quoting_text = Some quoting_value"
    by (simp add: quoting_table_def)
  have t2: "map_of quoting_table (js ''{}'') = Some (JObj [])"
    by (simp add: quoting_table_def quoting_text_def js_def)
  have 3: "extract_and_parse (table_backend [] quoting_table) quoting_text = Inr (JObj [])"
    by (simp add: extract_and_parse_def table_backend_def 1 t2)
  have 4: "extract_and_parse (table_backend [] quoting_table) ?wrapped = Inr quoting_value"
    by (simp add: extract_and_parse_def table_backend_def 2 t1)
  have 5: "satisfies_schema quoting_value"
    by (simp add: satisfies_schema_def quoting_value_def get_prop_def is_string_def is_unit_number_def
        isArray_def includes_js_def categories_def priorities_def js_def)
  have v: "valid_structure quoting_value = Inr True"
    by (simp add: valid_structure_def quoting_value_def get_prop_def truthy_def isArray_def
        includes_js_def categories_def priorities_def js_def)
  have e: "valid_structure (JObj []) = Inr False"
    by (simp add: valid_structure_def get_prop_def truthy_def)
  have ne: "quoting_text \<noteq> []" "?wrapped \<noteq> []" "js ''secret'' \<noteq> []"
    by (simp_all add: quoting_text_def fenced_def js_def)
  have 6: "snd (analyzeFeedback (table_backend quoting_text quoting_table)
          (js ''Pasting a code fence fails'') None (js ''secret'')) = Inr None"
    using ne by (simp add: analyzeFeedback_def analyze_try_def extract_and_parse_def table_backend_def 1 t2 e)
  have 7: "snd (analyzeFeedback (table_backend ?wrapped quoting_table)
          (js ''Pasting a code fence fails'') None (js ''secret'')) = Inr (Some quoting_value)"
    using ne by (simp add: analyzeFeedback_def analyze_try_def extract_and_parse_def table_backend_def 2 t1 v)
  from 1 2 3 4 5 6 7 show ?thesis by blast
qed

end
